theory Spec2Isabelle
  imports Complex_Main "HOL-Library.Log_Nat" "HOL-Library.AList"
begin

section \<open>JavaScript numbers\<close>

text \<open>
  The shares, amounts and limits of the tools are JavaScript numbers: IEEE 754 binary64
  values. A finite one is modelled by the rational it denotes, the others by constructors.
  Arithmetic rounds to nearest, ties to even, as the language prescribes; the sign of zero
  is not tracked (no operation of the program observes it).
\<close>

datatype number = Finite rat | PosInf | NegInf | NaN

definition pow2 :: "int \<Rightarrow> rat" where
  "pow2 e = 2 powi e"

text \<open>\<open>ilog2 a\<close> is the binary exponent of a positive rational: \<open>2^k \<le> a < 2^(k+1)\<close>.\<close>

definition ilog2 :: "rat \<Rightarrow> int" where
  "ilog2 a = (let d = bitlen (fst (quotient_of a)) - bitlen (snd (quotient_of a))
              in if pow2 d \<le> a then d else d - 1)"

definition round_half_even :: "rat \<Rightarrow> int" where
  "round_half_even q = (let f = \<lfloor>q\<rfloor>; r = q - of_int f
     in if r < 1 / 2 then f else if 1 / 2 < r then f + 1 else if even f then f else f + 1)"

text \<open>
  The spacing of binary64 values around a magnitude \<open>a\<close> is \<open>2^e\<close> with
  \<open>e = ilog2 a - 52\<close>, and \<open>2^-1074\<close> in the subnormal range.
\<close>

definition double_exponent :: "rat \<Rightarrow> int" where
  "double_exponent a = max (ilog2 a - 52) (- 1074)"

definition round_magnitude :: "rat \<Rightarrow> rat" where
  "round_magnitude a =
     of_int (round_half_even (a / pow2 (double_exponent a))) * pow2 (double_exponent a)"

definition round_double :: "rat \<Rightarrow> number" where
  "round_double x = (if x = 0 then Finite 0 else
     let v = round_magnitude \<bar>x\<bar>
     in if pow2 1024 \<le> v then (if 0 < x then PosInf else NegInf)
        else Finite (if 0 < x then v else - v))"

fun js_neg :: "number \<Rightarrow> number" where
  "js_neg (Finite x) = Finite (- x)"
| "js_neg PosInf = NegInf"
| "js_neg NegInf = PosInf"
| "js_neg NaN = NaN"

fun js_add :: "number \<Rightarrow> number \<Rightarrow> number" where
  "js_add (Finite a) (Finite b) = round_double (a + b)"
| "js_add NaN _ = NaN"
| "js_add _ NaN = NaN"
| "js_add PosInf NegInf = NaN"
| "js_add NegInf PosInf = NaN"
| "js_add PosInf _ = PosInf"
| "js_add NegInf _ = NegInf"
| "js_add _ PosInf = PosInf"
| "js_add _ NegInf = NegInf"

definition js_sub :: "number \<Rightarrow> number \<Rightarrow> number" where
  "js_sub a b = js_add a (js_neg b)"

fun js_abs :: "number \<Rightarrow> number" where
  "js_abs (Finite x) = Finite \<bar>x\<bar>"
| "js_abs PosInf = PosInf"
| "js_abs NegInf = PosInf"
| "js_abs NaN = NaN"

fun js_gt :: "number \<Rightarrow> number \<Rightarrow> bool" where
  "js_gt (Finite a) (Finite b) = (b < a)"
| "js_gt NaN _ = False"
| "js_gt _ NaN = False"
| "js_gt PosInf PosInf = False"
| "js_gt PosInf _ = True"
| "js_gt _ PosInf = False"
| "js_gt NegInf _ = False"
| "js_gt _ NegInf = True"

text \<open>The literal \<open>1e-6\<close> of the share check (mcp.ts, line 97).\<close>

definition epsilon :: number where
  "epsilon = round_double (1 / 10 ^ 6)"

section \<open>JavaScript values and plain objects\<close>

text \<open>
  Values of type \<open>any\<close>: the collaborator's answers, the raw arguments of a tool, the
  identifiers after normalisation. \<open>JBuiltin k\<close> is the value found under the key \<open>k\<close> of
  \<open>Object.prototype\<close>: a built-in function, or \<open>Object.prototype\<close> itself for \<open>__proto__\<close>.
  It arises only from reading an inherited property; answers and arguments are JSON-like
  and contain none.
\<close>

datatype any =
    JUndefined
  | JNull
  | JBool bool
  | JNumber number
  | JString string
  | JArray "any list"
  | JObject "(string \<times> any) list"
  | JBuiltin string

fun truthy :: "any \<Rightarrow> bool" where
  "truthy JUndefined = False"
| "truthy JNull = False"
| "truthy (JBool b) = b"
| "truthy (JNumber n) = (n \<noteq> NaN \<and> n \<noteq> Finite 0)"
| "truthy (JString s) = (s \<noteq> [])"
| "truthy (JArray _) = True"
| "truthy (JObject _) = True"
| "truthy (JBuiltin _) = True"

definition nullish :: "any \<Rightarrow> bool" where
  "nullish v = (v = JUndefined \<or> v = JNull)"

text \<open>The operator \<open>a ?? b\<close>.\<close>

definition coalesce :: "any \<Rightarrow> any \<Rightarrow> any" where
  "coalesce a b = (if nullish a then b else a)"

definition of_optional :: "string option \<Rightarrow> any" where
  "of_optional s = (case s of None \<Rightarrow> JUndefined | Some v \<Rightarrow> JString v)"

text \<open>
  Reading one of the fixed property names of the source (\<open>result\<close>, \<open>results\<close>,
  \<open>name\<close>, \<open>GlobalId\<close>, \<open>defaultCurrencyCode\<close>, and the names of the tools' arguments)
  from a value that is not \<open>undefined\<close> or \<open>null\<close>. None of these names is defined on a
  built-in prototype, so only an object's own property answers.
\<close>

fun field :: "any \<Rightarrow> string \<Rightarrow> any" where
  "field (JObject ps) k = (case map_of ps k of Some v \<Rightarrow> v | None \<Rightarrow> JUndefined)"
| "field _ k = JUndefined"

text \<open>
  An object created by the literal \<open>{}\<close> and used as a dictionary (\<open>nameToGlobalId\<close>,
  \<open>resolved\<close>, \<open>transports\<close>) is the list of its own properties in insertion order. Its
  prototype is \<open>Object.prototype\<close>, so \<open>obj[k]\<close> falls back to the properties defined
  there when \<open>k\<close> is not an own property.
\<close>

definition object_prototype_keys :: "string list" where
  "object_prototype_keys =
     [''constructor'', ''__defineGetter__'', ''__defineSetter__'', ''hasOwnProperty'',
      ''__lookupGetter__'', ''__lookupSetter__'', ''isPrototypeOf'', ''propertyIsEnumerable'',
      ''toString'', ''valueOf'', ''__proto__'', ''toLocaleString'']"

definition obj_get :: "(string \<times> any) list \<Rightarrow> string \<Rightarrow> any" where
  "obj_get ps k = (case map_of ps k of
       Some v \<Rightarrow> v
     | None \<Rightarrow> if k \<in> set object_prototype_keys then JBuiltin k else JUndefined)"

text \<open>
  \<open>obj[k] = v\<close>. For the key \<open>__proto__\<close> the inherited setter runs instead of creating an
  own property: it ignores a string, and given \<open>Object.prototype\<close> it leaves the prototype
  as it is. These are the only values the name resolver writes under that key.
\<close>

definition obj_set :: "(string \<times> any) list \<Rightarrow> string \<Rightarrow> any \<Rightarrow> (string \<times> any) list" where
  "obj_set ps k v = (if k = ''__proto__'' then ps else AList.update k v ps)"

section \<open>Strings\<close>

text \<open>
  A string is the list of its code units, here in the range 0..255 (Latin-1).
  \<open>String.prototype.toLowerCase\<close> maps A..Z and the accented capitals
  U+00C0..U+00DE (except the multiplication sign U+00D7) 32 places up.
\<close>

definition lower_char :: "char \<Rightarrow> char" where
  "lower_char c = (let k = (of_char c :: nat)
     in if (65 \<le> k \<and> k \<le> 90) \<or> (192 \<le> k \<and> k \<le> 222 \<and> k \<noteq> 215)
        then char_of (k + 32) else c)"

definition toLowerCase :: "string \<Rightarrow> string" where
  "toLowerCase s = map lower_char s"

text \<open>\<open>Array.from(new Set(xs))\<close>: the first occurrence of each element, in order.\<close>

definition dedupe :: "'a list \<Rightarrow> 'a list" where
  "dedupe xs = foldl (\<lambda>acc x. if x \<in> set acc then acc else acc @ [x]) [] xs"

section \<open>Effects: awaited calls that may throw\<close>

datatype thrown = Error string | TypeError

type_synonym ('a, 's) eff = "'s \<Rightarrow> (thrown + 'a) \<times> 's"

definition eff_return :: "'a \<Rightarrow> ('a, 's) eff" where
  "eff_return x s = (Inr x, s)"

definition eff_throw :: "thrown \<Rightarrow> ('a, 's) eff" where
  "eff_throw e s = (Inl e, s)"

text \<open>\<open>const x = await m; k x\<close>: a rejection of \<open>m\<close> ends the function.\<close>

definition eff_bind :: "('a, 's) eff \<Rightarrow> ('a \<Rightarrow> ('b, 's) eff) \<Rightarrow> ('b, 's) eff" where
  "eff_bind m k s = (case m s of (Inl e, s') \<Rightarrow> (Inl e, s') | (Inr x, s') \<Rightarrow> k x s')"

definition eff_of_result :: "thrown + 'a \<Rightarrow> ('a, 's) eff" where
  "eff_of_result r s = (r, s)"

text \<open>\<open>v.k\<close> throws a TypeError when \<open>v\<close> is \<open>undefined\<close> or \<open>null\<close>.\<close>

definition member_access :: "any \<Rightarrow> string \<Rightarrow> thrown + any" where
  "member_access v k = (if nullish v then Inl TypeError else Inr (field v k))"

section \<open>The tool layer (mcp.ts)\<close>

subsection \<open>The \<open>SplidApi\<close> interface\<close>

record group_ref =
  group_id :: string
  group_currencyCode :: any

record GroupSelector =
  groupId :: "string option"
  groupCode :: "string option"
  groupName :: "string option"

text \<open>The elements \<open>{userId, amount}\<close> and \<open>{userId, share}\<close> handed to \<open>createExpense\<close>.\<close>

record normalized_payer =
  np_userId :: any
  np_amount :: number

record normalized_profiteer =
  nf_userId :: any
  nf_share :: number

record expense_input =
  input_groupId :: string
  input_title :: string
  input_amount :: number
  input_currencyCode :: any
  input_payers :: "normalized_payer list"
  input_profiteers :: "normalized_profiteer list"

record entries_input =
  entries_groupId :: string
  entries_limit :: "number option"

record 's SplidApi =
  getDefaultGroup :: "(group_ref, 's) eff"
  resolveGroup :: "GroupSelector \<Rightarrow> (group_ref, 's) eff"
  listMembers :: "string \<Rightarrow> (any, 's) eff"
  createExpense :: "expense_input \<Rightarrow> (any, 's) eff"
  listEntries :: "entries_input \<Rightarrow> (any, 's) eff"
  getGroupSummary :: "string \<Rightarrow> (any, 's) eff"

subsection \<open>Tool results\<close>

text \<open>
  The text of a content item is a template: literal text, \<open>${n}\<close> for a number \<open>n\<close>
  (the language's number-to-string conversion) and \<open>JSON.stringify(v)\<close>.
\<close>

datatype piece = Lit string | NumberToString number | JsonStringify any

record CallToolResult =
  content :: "piece list list"
  isError :: bool

definition text_result :: "piece list \<Rightarrow> CallToolResult" where
  "text_result t = \<lparr>content = [t], isError = False\<rparr>"

definition error_result :: "piece list \<Rightarrow> CallToolResult" where
  "error_result t = \<lparr>content = [t], isError = True\<rparr>"

subsection \<open>health and whoami\<close>

definition health_handler :: CallToolResult where
  "health_handler = text_result [Lit ''ok'']"

definition group_json :: "group_ref \<Rightarrow> any" where
  "group_json g = JObject [(''id'', JString (group_id g)), (''currencyCode'', group_currencyCode g)]"

definition whoami_handler :: "'s SplidApi \<Rightarrow> (CallToolResult, 's) eff" where
  "whoami_handler splid =
     eff_bind (getDefaultGroup splid) (\<lambda>group.
     eff_bind (listMembers splid (group_id group)) (\<lambda>members.
     eff_return (text_result
       [JsonStringify (JObject [(''group'', group_json group), (''members'', members)])])))"

subsection \<open>Input schemas\<close>

record PayerLoose =
  payer_userId :: "string option"
  payer_name :: "string option"
  payer_amount :: number

record ProfiteerLoose =
  profiteer_userId :: "string option"
  profiteer_name :: "string option"
  share :: number

record CreateExpenseArgs = GroupSelector +
  title :: string
  amount :: number
  currencyCode :: "string option"
  payers :: "PayerLoose list"
  profiteers :: "ProfiteerLoose list"

record ListEntriesArgs = GroupSelector +
  limit :: "number option"

definition truthy_opt :: "string option \<Rightarrow> bool" where
  "truthy_opt s = truthy (of_optional s)"

text \<open>\<open>z.number().positive()\<close> and \<open>z.number().gt(0).lte(1)\<close>; \<open>z.number()\<close> refuses NaN.\<close>

definition positive :: "number \<Rightarrow> bool" where
  "positive n = js_gt n (Finite 0)"

definition gt0_lte1 :: "number \<Rightarrow> bool" where
  "gt0_lte1 n = (js_gt n (Finite 0) \<and> \<not> js_gt n (Finite 1) \<and> n \<noteq> NaN)"

definition PayerLoose_ok :: "PayerLoose \<Rightarrow> bool" where
  "PayerLoose_ok v = (positive (payer_amount v)
     \<and> (truthy_opt (payer_userId v) \<or> truthy_opt (payer_name v)))"

definition ProfiteerLoose_ok :: "ProfiteerLoose \<Rightarrow> bool" where
  "ProfiteerLoose_ok v = (gt0_lte1 (share v)
     \<and> (truthy_opt (profiteer_userId v) \<or> truthy_opt (profiteer_name v)))"

definition CreateExpenseInput_ok :: "CreateExpenseArgs \<Rightarrow> bool" where
  "CreateExpenseInput_ok a = (positive (amount a)
     \<and> payers a \<noteq> [] \<and> list_all PayerLoose_ok (payers a)
     \<and> profiteers a \<noteq> [] \<and> list_all ProfiteerLoose_ok (profiteers a))"

text \<open>
  \<open>ListEntriesInput\<close> on the raw arguments. An absent optional field stays absent (the
  handler supplies the default of \<open>limit\<close>). \<open>.int()\<close> is \<open>Number.isInteger\<close>.
\<close>

definition parse_optional_string :: "any \<Rightarrow> string option option" where
  "parse_optional_string v = (case v of
       JUndefined \<Rightarrow> Some None
     | JString s \<Rightarrow> Some (Some s)
     | _ \<Rightarrow> None)"

definition limit_ok :: "number \<Rightarrow> bool" where
  "limit_ok n = (case n of
       Finite x \<Rightarrow> of_int \<lfloor>x\<rfloor> = x \<and> 1 \<le> x \<and> x \<le> 100
     | _ \<Rightarrow> False)"

definition parse_limit :: "any \<Rightarrow> number option option" where
  "parse_limit v = (case v of
       JUndefined \<Rightarrow> Some None
     | JNumber n \<Rightarrow> if limit_ok n then Some (Some n) else None
     | _ \<Rightarrow> None)"

definition ListEntriesInput_parse :: "any \<Rightarrow> ListEntriesArgs option" where
  "ListEntriesInput_parse raw = (case raw of
       JObject ps \<Rightarrow>
         (case (parse_optional_string (field raw ''groupId''),
                parse_optional_string (field raw ''groupCode''),
                parse_optional_string (field raw ''groupName''),
                parse_limit (field raw ''limit'')) of
            (Some i, Some c, Some n, Some l) \<Rightarrow>
              Some \<lparr>groupId = i, groupCode = c, groupName = n, limit = l\<rparr>
          | _ \<Rightarrow> None)
     | _ \<Rightarrow> None)"

text \<open>
  A registered tool is called through its input schema: the arguments are parsed first, and
  the handler runs only on arguments the schema accepts.
\<close>

datatype 'r call_outcome = InvalidParams | Thrown thrown | Returned 'r

definition call_tool ::
  "('raw \<Rightarrow> 'args option) \<Rightarrow> ('args \<Rightarrow> ('r, 's) eff) \<Rightarrow> 'raw \<Rightarrow> 's \<Rightarrow> 'r call_outcome \<times> 's" where
  "call_tool parse handler raw s = (case parse raw of
       None \<Rightarrow> (InvalidParams, s)
     | Some args \<Rightarrow> (case handler args s of
         (Inl e, s') \<Rightarrow> (Thrown e, s')
       | (Inr r, s') \<Rightarrow> (Returned r, s')))"

subsection \<open>Group selection\<close>

text \<open>
  The expression shared by the three handlers:
  \<open>(groupId || groupCode || groupName) ? await splid.resolveGroup({...}) : await splid.getDefaultGroup()\<close>.
\<close>

definition select_group :: "'s SplidApi \<Rightarrow> GroupSelector \<Rightarrow> (group_ref, 's) eff" where
  "select_group splid sel =
     (if truthy_opt (groupId sel) \<or> truthy_opt (groupCode sel) \<or> truthy_opt (groupName sel)
      then resolveGroup splid sel
      else getDefaultGroup splid)"

definition selector :: "'a GroupSelector_scheme \<Rightarrow> GroupSelector" where
  "selector a = \<lparr>groupId = groupId a, groupCode = groupCode a, groupName = groupName a\<rparr>"

subsection \<open>resolveUserIdsByName\<close>

text \<open>\<open>for (const m of list)\<close>: an array or a string can be iterated, anything else throws.\<close>

definition iterate :: "any \<Rightarrow> thrown + any list" where
  "iterate v = (case v of
       JArray xs \<Rightarrow> Inr xs
     | JString s \<Rightarrow> Inr (map (\<lambda>c. JString [c]) s)
     | _ \<Rightarrow> Inl TypeError)"

text \<open>\<open>members.result?.results ?? members\<close>, then the iteration of the loop.\<close>

definition member_list :: "any \<Rightarrow> thrown + any list" where
  "member_list members =
     (if nullish members then Inl TypeError
      else let r = field members ''result'';
               rs = (if nullish r then JUndefined else field r ''results'')
           in iterate (coalesce rs members))"

definition is_string :: "any \<Rightarrow> bool" where
  "is_string v = (case v of JString _ \<Rightarrow> True | _ \<Rightarrow> False)"

definition string_of :: "any \<Rightarrow> string" where
  "string_of v = (case v of JString s \<Rightarrow> s | _ \<Rightarrow> [])"

definition add_member :: "(string \<times> any) list \<Rightarrow> any \<Rightarrow> (string \<times> any) list" where
  "add_member tbl m =
     (if truthy m \<and> is_string (field m ''name'') \<and> is_string (field m ''GlobalId'')
      then obj_set tbl (toLowerCase (string_of (field m ''name''))) (field m ''GlobalId'')
      else tbl)"

definition nameToGlobalId :: "any list \<Rightarrow> (string \<times> any) list" where
  "nameToGlobalId list = foldl add_member [] list"

fun resolve_names ::
  "(string \<times> any) list \<Rightarrow> string list \<Rightarrow> (string \<times> any) list \<Rightarrow> thrown + (string \<times> any) list" where
  "resolve_names tbl [] resolved = Inr resolved"
| "resolve_names tbl (n # ns) resolved =
     (let key = toLowerCase n
      in if \<not> truthy (obj_get tbl key) then Inl (Error (''Unknown member name: '' @ n))
         else resolve_names tbl ns (obj_set resolved n (obj_get tbl key)))"

definition resolveUserIdsByName ::
  "'s SplidApi \<Rightarrow> string \<Rightarrow> string list \<Rightarrow> ((string \<times> any) list, 's) eff" where
  "resolveUserIdsByName splid gid names =
     eff_bind (listMembers splid gid) (\<lambda>members.
     eff_bind (eff_of_result (member_list members)) (\<lambda>list.
     eff_of_result (resolve_names (nameToGlobalId list) names [])))"

subsection \<open>createExpense\<close>

text \<open>
  An optional string used where a string is expected (\<open>p.name as string\<close>,
  \<open>input.groupId\<close> after its test): the string itself; as a property key, an absent one
  reads \<open>undefined\<close>.
\<close>

definition as_string :: "string option \<Rightarrow> string" where
  "as_string n = (case n of None \<Rightarrow> ''undefined'' | Some s \<Rightarrow> s)"

definition share_sum :: "ProfiteerLoose list \<Rightarrow> number" where
  "share_sum ps = foldl (\<lambda>s p. js_add s (share p)) (Finite 0) ps"

definition share_mismatch :: "number \<Rightarrow> bool" where
  "share_mismatch the_sum = js_gt (js_abs (js_sub the_sum (Finite 1))) epsilon"

definition missingPayerNames :: "PayerLoose list \<Rightarrow> string list" where
  "missingPayerNames ps = List.map_filter
     (\<lambda>p. if \<not> truthy_opt (payer_userId p) \<and> truthy_opt (payer_name p) then payer_name p else None) ps"

definition missingProfiteerNames :: "ProfiteerLoose list \<Rightarrow> string list" where
  "missingProfiteerNames ps = List.map_filter
     (\<lambda>p. if \<not> truthy_opt (profiteer_userId p) \<and> truthy_opt (profiteer_name p)
          then profiteer_name p else None) ps"

definition normalizedPayers :: "(string \<times> any) list \<Rightarrow> PayerLoose list \<Rightarrow> normalized_payer list" where
  "normalizedPayers nameToId ps = map (\<lambda>p.
     \<lparr>np_userId = coalesce (of_optional (payer_userId p)) (obj_get nameToId (as_string (payer_name p))),
      np_amount = payer_amount p\<rparr>) ps"

definition normalizedProfiteers ::
  "(string \<times> any) list \<Rightarrow> ProfiteerLoose list \<Rightarrow> normalized_profiteer list" where
  "normalizedProfiteers nameToId ps = map (\<lambda>p.
     \<lparr>nf_userId = coalesce (of_optional (profiteer_userId p))
                    (obj_get nameToId (as_string (profiteer_name p))),
      nf_share = share p\<rparr>) ps"

text \<open>Lines 102 to 125: what the handler does once the share check has passed.\<close>

definition create_after_validation ::
  "'s SplidApi \<Rightarrow> CreateExpenseArgs \<Rightarrow> group_ref \<Rightarrow> any \<Rightarrow> (CallToolResult, 's) eff" where
  "create_after_validation splid a grp currency =
     (let namesToResolve = dedupe (missingPayerNames (payers a) @ missingProfiteerNames (profiteers a))
      in eff_bind (if namesToResolve \<noteq> []
                   then resolveUserIdsByName splid (group_id grp) namesToResolve
                   else eff_return []) (\<lambda>nameToId.
         let nps = normalizedPayers nameToId (payers a);
             nfs = normalizedProfiteers nameToId (profiteers a)
         in if list_ex (\<lambda>p. \<not> truthy (np_userId p)) nps \<or> list_ex (\<lambda>p. \<not> truthy (nf_userId p)) nfs
            then eff_return (error_result [Lit ''Failed to resolve all user names to IDs''])
            else eff_bind (createExpense splid
                   \<lparr>input_groupId = group_id grp, input_title = title a,
                    input_amount = amount a, input_currencyCode = currency,
                    input_payers = nps, input_profiteers = nfs\<rparr>) (\<lambda>result.
                 eff_return (text_result [JsonStringify result]))))"

definition createExpense_handler :: "'s SplidApi \<Rightarrow> CreateExpenseArgs \<Rightarrow> (CallToolResult, 's) eff" where
  "createExpense_handler splid a =
     eff_bind (select_group splid (selector a)) (\<lambda>group.
       let currency = coalesce (of_optional (currencyCode a))
                        (coalesce (group_currencyCode group) (JString ''EUR''));
           the_sum = share_sum (profiteers a)
       in if share_mismatch the_sum
          then eff_return (error_result
                 [Lit ''Shares must sum to 1. Current sum: '', NumberToString the_sum])
          else create_after_validation splid a group currency)"

subsection \<open>listEntries and getGroupSummary\<close>

definition listEntries_handler :: "'s SplidApi \<Rightarrow> ListEntriesArgs \<Rightarrow> (CallToolResult, 's) eff" where
  "listEntries_handler splid a =
     eff_bind (select_group splid (selector a)) (\<lambda>group.
     eff_bind (listEntries splid
        \<lparr>entries_groupId = group_id group,
         entries_limit = Some (case limit a of None \<Rightarrow> Finite 20 | Some n \<Rightarrow> n)\<rparr>) (\<lambda>entries.
     eff_return (text_result [JsonStringify entries])))"

definition getGroupSummary_handler :: "'s SplidApi \<Rightarrow> GroupSelector \<Rightarrow> (CallToolResult, 's) eff" where
  "getGroupSummary_handler splid a =
     eff_bind (select_group splid (selector a)) (\<lambda>group.
     eff_bind (getGroupSummary splid (group_id group)) (\<lambda>summary.
     eff_return (text_result [JsonStringify summary])))"

section \<open>The server (server.ts)\<close>

subsection \<open>The \<open>splid-js\<close> client\<close>

text \<open>
  The options and items objects the server builds for \<open>entry.expense.create\<close>.
\<close>

record client_payer =
  cp_id :: any
  cp_amount :: number

record client_profiteer =
  cf_id :: any
  cf_share :: number

record expense_options =
  opt_groupId :: string
  opt_title :: string
  opt_payers :: "client_payer list"
  opt_currencyCode :: any

record expense_items =
  item_amount :: number
  item_profiteers :: "client_profiteer list"

datatype client_call =
    Group_getByInviteCode string
  | GroupInfo_getOneByGroup string
  | Person_getByGroup string
  | Entry_getByGroup string number number
  | Entry_expense_create expense_options expense_items

text \<open>
  The client is the external collaborator. Its answer to a call may depend on the calls
  made so far; \<open>group.getByInviteCode\<close> is typed (types.d.ts) and answers with
  \<open>result.objectId\<close>, the other calls answer with values of type \<open>any\<close>.
  The state of the server's \<open>SplidApi\<close> is the list of the calls made, oldest first.
\<close>

record SplidClient =
  group_getByInviteCode :: "client_call list \<Rightarrow> string \<Rightarrow> thrown + string"
  groupInfo_getOneByGroup :: "client_call list \<Rightarrow> string \<Rightarrow> thrown + any"
  person_getByGroup :: "client_call list \<Rightarrow> string \<Rightarrow> thrown + any"
  entry_getByGroup :: "client_call list \<Rightarrow> string \<Rightarrow> number \<Rightarrow> number \<Rightarrow> thrown + any"
  entry_expense_create :: "client_call list \<Rightarrow> expense_options \<Rightarrow> expense_items \<Rightarrow> thrown + any"
  getBalance :: "any \<Rightarrow> any \<Rightarrow> any \<Rightarrow> thrown + any"

definition await_call :: "client_call \<Rightarrow> (client_call list \<Rightarrow> thrown + 'a) \<Rightarrow> ('a, client_call list) eff" where
  "await_call c answer calls = (answer calls, calls @ [c])"

subsection \<open>\<open>splidApi\<close>\<close>

definition group_of_info :: "string \<Rightarrow> any \<Rightarrow> (group_ref, client_call list) eff" where
  "group_of_info gid info =
     eff_bind (eff_of_result (member_access info ''defaultCurrencyCode'')) (\<lambda>cc.
     eff_return \<lparr>group_id = gid, group_currencyCode = cc\<rparr>)"

definition group_by_id :: "SplidClient \<Rightarrow> string \<Rightarrow> (group_ref, client_call list) eff" where
  "group_by_id client gid =
     eff_bind (await_call (GroupInfo_getOneByGroup gid)
                 (\<lambda>calls. groupInfo_getOneByGroup client calls gid)) (\<lambda>info.
     group_of_info gid info)"

definition group_by_code :: "SplidClient \<Rightarrow> string \<Rightarrow> (group_ref, client_call list) eff" where
  "group_by_code client code =
     eff_bind (await_call (Group_getByInviteCode code)
                 (\<lambda>calls. group_getByInviteCode client calls code)) (\<lambda>gid.
     group_by_id client gid)"

definition splidApi_getDefaultGroup :: "SplidClient \<Rightarrow> string \<Rightarrow> (group_ref, client_call list) eff" where
  "splidApi_getDefaultGroup client CODE = group_by_code client CODE"

definition splidApi_resolveGroup ::
  "SplidClient \<Rightarrow> string \<Rightarrow> GroupSelector \<Rightarrow> (group_ref, client_call list) eff" where
  "splidApi_resolveGroup client CODE input =
     (if truthy_opt (groupId input) then group_by_id client (as_string (groupId input))
      else if truthy_opt (groupCode input) then group_by_code client (as_string (groupCode input))
      else if truthy_opt (groupName input)
        then eff_throw (Error ''Group selection by name is not supported yet'')
      else splidApi_getDefaultGroup client CODE)"

definition splidApi_listMembers :: "SplidClient \<Rightarrow> string \<Rightarrow> (any, client_call list) eff" where
  "splidApi_listMembers client gid =
     await_call (Person_getByGroup gid) (\<lambda>calls. person_getByGroup client calls gid)"

definition splidApi_createExpense :: "SplidClient \<Rightarrow> expense_input \<Rightarrow> (any, client_call list) eff" where
  "splidApi_createExpense client input =
     (let options = \<lparr>opt_groupId = input_groupId input, opt_title = input_title input,
                     opt_payers = map (\<lambda>p. \<lparr>cp_id = np_userId p, cp_amount = np_amount p\<rparr>)
                                      (input_payers input),
                     opt_currencyCode = input_currencyCode input\<rparr>;
          items = \<lparr>item_amount = input_amount input,
                   item_profiteers = map (\<lambda>p. \<lparr>cf_id = nf_userId p, cf_share = nf_share p\<rparr>)
                                         (input_profiteers input)\<rparr>
      in await_call (Entry_expense_create options items)
           (\<lambda>calls. entry_expense_create client calls options items))"

definition splidApi_listEntries :: "SplidClient \<Rightarrow> entries_input \<Rightarrow> (any, client_call list) eff" where
  "splidApi_listEntries client input =
     (let n = (case entries_limit input of None \<Rightarrow> Finite 20 | Some l \<Rightarrow> l)
      in await_call (Entry_getByGroup (entries_groupId input) (Finite 0) n)
           (\<lambda>calls. entry_getByGroup client calls (entries_groupId input) (Finite 0) n))"

text \<open>\<open>v.result.results\<close> and \<open>v.result\<close>, each access throwing on \<open>undefined\<close> or \<open>null\<close>.\<close>

definition result_results :: "any \<Rightarrow> thrown + any" where
  "result_results v = (case member_access v ''result'' of
       Inl e \<Rightarrow> Inl e
     | Inr r \<Rightarrow> member_access r ''results'')"

definition splidApi_getGroupSummary :: "SplidClient \<Rightarrow> string \<Rightarrow> (any, client_call list) eff" where
  "splidApi_getGroupSummary client gid =
     eff_bind (await_call (Person_getByGroup gid) (\<lambda>calls. person_getByGroup client calls gid)) (\<lambda>members.
     eff_bind (await_call (Entry_getByGroup gid (Finite 0) (Finite 100))
                 (\<lambda>calls. entry_getByGroup client calls gid (Finite 0) (Finite 100))) (\<lambda>entries.
     eff_bind (await_call (GroupInfo_getOneByGroup gid)
                 (\<lambda>calls. groupInfo_getOneByGroup client calls gid)) (\<lambda>groupInfo.
     eff_bind (eff_of_result (result_results members)) (\<lambda>ms.
     eff_bind (eff_of_result (result_results entries)) (\<lambda>es.
     eff_bind (eff_of_result (member_access groupInfo ''result'')) (\<lambda>gi.
     eff_bind (eff_of_result (getBalance client ms es gi)) (\<lambda>balance.
     eff_return (JObject [(''balance'', balance)]))))))))"

definition splidApi :: "SplidClient \<Rightarrow> string \<Rightarrow> client_call list SplidApi" where
  "splidApi client CODE =
     \<lparr>getDefaultGroup = splidApi_getDefaultGroup client CODE,
      resolveGroup = splidApi_resolveGroup client CODE,
      listMembers = splidApi_listMembers client,
      createExpense = splidApi_createExpense client,
      listEntries = splidApi_listEntries client,
      getGroupSummary = splidApi_getGroupSummary client\<rparr>"

text \<open>\<open>GET /health\<close> answers with the JSON body \<open>{ok: true}\<close>.\<close>

definition health_route :: any where
  "health_route = JObject [(''ok'', JBool True)]"

subsection \<open>Sessions\<close>

text \<open>
  \<open>transports\<close> is a plain object from session identifiers to transports. A transport is
  named by a number, the next free one being \<open>next_transport\<close>; \<open>sessionIds\<close> holds the
  \<open>sessionId\<close> field of each transport that has one.
\<close>

record server_state =
  transports :: "(string \<times> nat) list"
  sessionIds :: "(nat \<times> string) list"
  next_transport :: nat

text \<open>\<open>transports[k]\<close>: an own property, an inherited one, or \<open>undefined\<close>.\<close>

datatype lookup = Missing | Existing nat | Inherited string

definition transports_get :: "(string \<times> nat) list \<Rightarrow> string \<Rightarrow> lookup" where
  "transports_get ts k = (case map_of ts k of
       Some t \<Rightarrow> Existing t
     | None \<Rightarrow> if k \<in> set object_prototype_keys then Inherited k else Missing)"

text \<open>
  The answers of the routes: the status 400 or 500 sent by the handler itself, the request
  handed to \<open>handleRequest\<close> of a transport (which then answers), or an exception that no
  \<open>try\<close> catches.
\<close>

datatype response =
    BadRequest400
  | InternalError500
  | Handled nat
  | Unhandled thrown

text \<open>
  The callback \<open>onsessioninitialized\<close>: \<open>transports[sid] = transport\<close>. Under the key
  \<open>__proto__\<close> the assignment creates no own property.
\<close>

definition onsessioninitialized :: "nat \<Rightarrow> string \<Rightarrow> server_state \<Rightarrow> server_state" where
  "onsessioninitialized t sid st =
     st\<lparr>transports := (if sid = ''__proto__'' then transports st
                          else AList.update sid t (transports st))\<rparr>"

text \<open>
  What the transport does with the first request of a session is the protocol library's part:
  it either initialises the session or it does not. Initialising, it takes an identifier from
  \<open>sessionIdGenerator\<close> (here \<open>randomUUID\<close>), stores it in its \<open>sessionId\<close> field and calls
  \<open>onsessioninitialized\<close> with it.
\<close>

datatype init_outcome = Initialized string | NotInitialized

definition initialize_session :: "nat \<Rightarrow> string \<Rightarrow> server_state \<Rightarrow> server_state" where
  "initialize_session t sid st =
     onsessioninitialized t sid (st\<lparr>sessionIds := AList.update t sid (sessionIds st)\<rparr>)"

definition onclose :: "nat \<Rightarrow> server_state \<Rightarrow> server_state" where
  "onclose t st = (case map_of (sessionIds st) t of
       None \<Rightarrow> st
     | Some sid \<Rightarrow>
         if sid \<noteq> [] \<and> transports_get (transports st) sid \<noteq> Missing
         then st\<lparr>transports := AList.delete sid (transports st)\<rparr>
         else st)"

definition post_mcp :: "string option \<Rightarrow> bool \<Rightarrow> init_outcome \<Rightarrow> server_state \<Rightarrow> response \<times> server_state" where
  "post_mcp sessionId isInitializeRequest outcome st =
     (if truthy_opt sessionId then
        (case transports_get (transports st) (as_string sessionId) of
           Missing \<Rightarrow> (BadRequest400, st)
         | Existing t \<Rightarrow> (Handled t, st)
         | Inherited k \<Rightarrow> (InternalError500, st))
      else if \<not> isInitializeRequest then (BadRequest400, st)
      else
        let t = next_transport st;
            st1 = st\<lparr>next_transport := Suc t\<rparr>
        in (case outcome of
              Initialized sid \<Rightarrow> (Handled t, initialize_session t sid st1)
            | NotInitialized \<Rightarrow> (Handled t, st1)))"

text \<open>
  \<open>GET /mcp\<close> and \<open>DELETE /mcp\<close> have the same body, without the \<open>try\<close> of \<open>POST\<close>: calling
  \<open>handleRequest\<close> on an inherited member of \<open>transports\<close> throws, and nothing catches it.
\<close>

definition get_mcp :: "string option \<Rightarrow> server_state \<Rightarrow> response \<times> server_state" where
  "get_mcp sessionId st =
     (if \<not> truthy_opt sessionId then (BadRequest400, st)
      else (case transports_get (transports st) (as_string sessionId) of
           Missing \<Rightarrow> (BadRequest400, st)
         | Existing t \<Rightarrow> (Handled t, st)
         | Inherited k \<Rightarrow> (Unhandled TypeError, st)))"

definition delete_mcp :: "string option \<Rightarrow> server_state \<Rightarrow> response \<times> server_state" where
  "delete_mcp sessionId st = get_mcp sessionId st"

text \<open>The identifiers \<open>randomUUID\<close> returns: 36 characters, hexadecimal digits and four dashes.\<close>

definition is_uuid :: "string \<Rightarrow> bool" where
  "is_uuid s = (length s = 36 \<and>
     list_all (\<lambda>(i, c). if i \<in> {8, 13, 18, 23} then c = CHR ''-'' else c \<in> set ''0123456789abcdef'')
       (zip [0..<36] s))"

text \<open>What happens to the server between two moments: requests and closed channels.\<close>

datatype event =
    Post "string option" bool init_outcome
  | Get "string option"
  | Delete "string option"
  | Close nat

fun step :: "event \<Rightarrow> server_state \<Rightarrow> server_state" where
  "step (Post sessionId isInit outcome) st = snd (post_mcp sessionId isInit outcome st)"
| "step (Get sessionId) st = snd (get_mcp sessionId st)"
| "step (Delete sessionId) st = snd (delete_mcp sessionId st)"
| "step (Close t) st = onclose t st"

definition run :: "event list \<Rightarrow> server_state \<Rightarrow> server_state" where
  "run evs st = foldl (\<lambda>s ev. step ev s) st evs"

text \<open>The identifiers that sessions started by these events receive.\<close>

fun new_ids :: "event list \<Rightarrow> string list" where
  "new_ids [] = []"
| "new_ids (Post sessionId isInit (Initialized sid) # evs) = sid # new_ids evs"
| "new_ids (_ # evs) = new_ids evs"

section \<open>Notions of the specification\<close>

text \<open>The band \<open>[1 - 1e-6, 1 + 1e-6]\<close> of the specification, on exact values.\<close>

definition within_tolerance :: "number \<Rightarrow> bool" where
  "within_tolerance n = (case n of
       Finite x \<Rightarrow> 1 - 1 / 10 ^ 6 \<le> x \<and> x \<le> 1 + 1 / 10 ^ 6
     | _ \<Rightarrow> False)"

text \<open>
  The member snapshot as the specification reads it: an entry is a member when it has a
  name and a stable identifier, names are compared in lower case, and of several members
  with one name the last one counts. \<open>snapshot_id ms key\<close> is the stable identifier of the
  member whose lower-case name is \<open>key\<close>, if there is one.
\<close>

definition is_member :: "any \<Rightarrow> bool" where
  "is_member m = (truthy m \<and> is_string (field m ''name'') \<and> is_string (field m ''GlobalId''))"

fun snapshot_id :: "any list \<Rightarrow> string \<Rightarrow> string option" where
  "snapshot_id [] key = None"
| "snapshot_id (m # ms) key = (case snapshot_id ms key of
       Some g \<Rightarrow> Some g
     | None \<Rightarrow> if is_member m \<and> toLowerCase (string_of (field m ''name'')) = key
               then Some (string_of (field m ''GlobalId'')) else None)"

text \<open>
  The group resolution policy of the specification. A selector field is present when it is
  supplied and not empty. A present \<open>groupId\<close> takes precedence over a present
  \<open>groupCode\<close>, which takes precedence over a present \<open>groupName\<close>; selection by name
  fails explicitly; with no field present the default group of the configured invite code is
  resolved, on the call.
\<close>

definition present :: "string option \<Rightarrow> bool" where
  "present s = (case s of None \<Rightarrow> False | Some v \<Rightarrow> v \<noteq> [])"

definition group_policy ::
  "SplidClient \<Rightarrow> string \<Rightarrow> string option \<Rightarrow> string option \<Rightarrow> string option
     \<Rightarrow> (group_ref, client_call list) eff" where
  "group_policy client CODE i c n =
     (if present i then group_by_id client (as_string i)
      else if present c then group_by_code client (as_string c)
      else if present n then eff_throw (Error ''Group selection by name is not supported yet'')
      else group_by_code client CODE)"

text \<open>A group selector from its three fields, and a field with the empty string read as absent.\<close>

definition sel_of :: "string option \<Rightarrow> string option \<Rightarrow> string option \<Rightarrow> GroupSelector" where
  "sel_of i c n = \<lparr>groupId = i, groupCode = c, groupName = n\<rparr>"

definition blank_to_absent :: "string option \<Rightarrow> string option" where
  "blank_to_absent s = (if s = Some [] then None else s)"

text \<open>
  What the accumulator of the share sum is at every step, for shares that the schema
  accepts: infinite, or the result of a rounding and not negative.
\<close>

definition rounded_nonneg :: "number \<Rightarrow> bool" where
  "rounded_nonneg n = (n = PosInf \<or> (\<exists>x s. n = Finite s \<and> round_double x = Finite s \<and> 0 \<le> s))"

section \<open>Example inputs\<close>

text \<open>
  A collaborator with one group \<open>g1\<close>, reached by any invite code, whose members are Alice
  and Bob and whose currency is CHF.
\<close>

definition alice :: any where
  "alice = JObject [(''name'', JString ''Alice''), (''GlobalId'', JString ''id-alice'')]"

definition bob :: any where
  "bob = JObject [(''name'', JString ''Bob''), (''GlobalId'', JString ''id-bob'')]"

definition example_client :: SplidClient where
  "example_client =
     \<lparr>group_getByInviteCode = (\<lambda>calls code. Inr ''g1''),
      groupInfo_getOneByGroup = (\<lambda>calls gid. Inr (JObject [(''defaultCurrencyCode'', JString ''CHF'')])),
      person_getByGroup = (\<lambda>calls gid. Inr (JObject [(''result'', JObject [(''results'', JArray [alice, bob])])])),
      entry_getByGroup = (\<lambda>calls gid offset n. Inr (JArray [])),
      entry_expense_create = (\<lambda>calls options items. Inr (JString ''created'')),
      getBalance = (\<lambda>members entries info. Inr JNull)\<rparr>"

text \<open>The same collaborator with a single member, whose display name is \<open>__proto__\<close>.\<close>

definition proto_member :: any where
  "proto_member = JObject [(''name'', JString ''__proto__''), (''GlobalId'', JString ''id-1'')]"

definition proto_client :: SplidClient where
  "proto_client = example_client\<lparr>person_getByGroup := (\<lambda>calls gid. Inr (JArray [proto_member]))\<rparr>"

text \<open>The binary64 values of the literals \<open>0.6\<close>, \<open>0.4\<close> and \<open>0.9\<close>.\<close>

definition d06 :: number where
  "d06 = Finite (5404319552844595 / 2 ^ 53)"

definition d04 :: number where
  "d04 = Finite (3602879701896397 / 2 ^ 53)"

definition d09 :: number where
  "d09 = Finite (8106479329266893 / 2 ^ 53)"

text \<open>
  The createExpense call of the end-to-end example, the same call with the shares 0.5 and
  0.4, and listEntries without arguments.
\<close>

definition dinner :: CreateExpenseArgs where
  "dinner =
     \<lparr>groupId = None, groupCode = None, groupName = None,
      title = ''Dinner'', amount = Finite (25 / 2), currencyCode = None,
      payers = [\<lparr>payer_userId = None, payer_name = Some ''Alice'', payer_amount = Finite (25 / 2)\<rparr>],
      profiteers = [\<lparr>profiteer_userId = None, profiteer_name = Some ''Bob'', share = d06\<rparr>,
                    \<lparr>profiteer_userId = None, profiteer_name = Some ''Alice'', share = d04\<rparr>]\<rparr>"

definition short_dinner :: CreateExpenseArgs where
  "short_dinner = dinner\<lparr>profiteers :=
     [\<lparr>profiteer_userId = None, profiteer_name = Some ''Bob'', share = Finite (1 / 2)\<rparr>,
      \<lparr>profiteer_userId = None, profiteer_name = Some ''Alice'', share = d04\<rparr>]\<rparr>"

definition list_default :: ListEntriesArgs where
  "list_default = \<lparr>groupId = None, groupCode = None, groupName = None, limit = None\<rparr>"

text \<open>
  The same collaborator answering \<open>entry.getByGroup\<close> in the shape that getGroupSummary
  reads, \<open>{result: {results: []}}\<close>.
\<close>

definition summary_client :: SplidClient where
  "summary_client = example_client\<lparr>entry_getByGroup :=
     (\<lambda>calls gid offset n. Inr (JObject [(''result'', JObject [(''results'', JArray [])])]))\<rparr>"

text \<open>
  The server before any session, two session identifiers as \<open>randomUUID\<close> returns them, and
  the server after a first session has been established.
\<close>

definition initial_state :: server_state where
  "initial_state = \<lparr>transports = [], sessionIds = [], next_transport = 0\<rparr>"

definition example_uuid :: string where
  "example_uuid = ''123e4567-e89b-42d3-a456-426614174000''"

definition other_uuid :: string where
  "other_uuid = ''9b2d7c1e-0f4a-4c8b-8e6d-5a3f2b1c0d9e''"

definition established :: server_state where
  "established = snd (post_mcp None True (Initialized example_uuid) initial_state)"

section \<open>Properties of the number model\<close>

lemma pow2_pos [simp]: "0 < pow2 e"
  by (simp add: pow2_def)

lemma pow2_nonneg [simp]: "0 \<le> pow2 e"
  by (simp add: pow2_def)

lemma pow2_ne0 [simp]: "pow2 e \<noteq> 0"
  by (simp add: pow2_def)

lemma pow2_add: "pow2 (a + b) = pow2 a * pow2 b"
  by (simp add: pow2_def power_int_add)

lemma pow2_diff: "pow2 (a - b) = pow2 a / pow2 b"
  by (simp add: pow2_def power_int_diff)

lemma pow2_nat: "pow2 (int n) = 2 ^ n"
  by (simp add: pow2_def)

lemma pow2_mono: "m \<le> n \<Longrightarrow> pow2 m \<le> pow2 n"
  unfolding pow2_def by (rule power_int_increasing) simp_all

lemma pow2_strict_mono: "m < n \<Longrightarrow> pow2 m < pow2 n"
  unfolding pow2_def by (rule power_int_strict_increasing) simp_all

lemma pow2_less_D: "pow2 m < pow2 n \<Longrightarrow> m < n"
  using pow2_mono[of n m] by (cases "m < n") simp_all

lemma pow2_le_D: "pow2 m \<le> pow2 n \<Longrightarrow> m \<le> n"
  using pow2_strict_mono[of n m] by (cases "m \<le> n") simp_all

lemma quotient_of_pos_frac:
  assumes "0 < a"
  shows "0 < fst (quotient_of a)" "0 < snd (quotient_of a)"
        "a = of_int (fst (quotient_of a)) / of_int (snd (quotient_of a))"
proof -
  obtain p q where pq: "quotient_of a = (p, q)" by (cases "quotient_of a")
  have q: "0 < q" using pq by (rule quotient_of_denom_pos)
  have a: "a = of_int p / of_int q" using pq by (rule quotient_of_div)
  have "0 < p" using assms a q by (simp add: zero_less_divide_iff)
  then show "0 < fst (quotient_of a)" "0 < snd (quotient_of a)"
        "a = of_int (fst (quotient_of a)) / of_int (snd (quotient_of a))"
    using pq q a by simp_all
qed

lemma bitlen_pow2_bounds:
  assumes "0 < (p::int)"
  shows "pow2 (bitlen p - 1) \<le> of_int p" "of_int p < pow2 (bitlen p)"
proof -
  have b: "2 ^ nat (bitlen p - 1) \<le> p" "p < 2 ^ nat (bitlen p)"
    using bitlen_bounds[OF assms] by simp_all
  have ge1: "1 \<le> bitlen p" using assms by (auto simp: bitlen_alt_def)
  have "(of_int (2 ^ nat (bitlen p - 1)) :: rat) \<le> of_int p" using b(1) by (simp only: of_int_le_iff)
  then show "pow2 (bitlen p - 1) \<le> of_int p"
    using ge1 by (simp add: pow2_def power_int_def)
  have "(of_int p :: rat) < of_int (2 ^ nat (bitlen p))" using b(2) by (simp only: of_int_less_iff)
  then show "of_int p < pow2 (bitlen p)"
    using ge1 by (simp add: pow2_def power_int_def)
qed

lemma ilog2_bounds:
  assumes "0 < a"
  shows "pow2 (ilog2 a) \<le> a" "a < pow2 (ilog2 a + 1)"
proof -
  define p where "p = fst (quotient_of a)"
  define q where "q = snd (quotient_of a)"
  define d where "d = bitlen p - bitlen q"
  have p: "0 < p" and q: "0 < q" and a: "a = of_int p / of_int q"
    using quotient_of_pos_frac[OF assms] by (simp_all add: p_def q_def)
  have qr: "(0::rat) < of_int q" using q by simp
  have lo: "pow2 (d - 1) \<le> a"
  proof -
    have "pow2 (d - 1) * of_int q \<le> pow2 (d - 1) * pow2 (bitlen q)"
      using bitlen_pow2_bounds(2)[OF q] by (intro mult_left_mono) simp_all
    also have "\<dots> = pow2 (bitlen p - 1)"
      by (simp add: d_def pow2_add[symmetric])
    also have "\<dots> \<le> of_int p" using bitlen_pow2_bounds(1)[OF p] .
    finally show ?thesis using qr by (simp add: a pos_le_divide_eq)
  qed
  have hi: "a < pow2 (d + 1)"
  proof -
    have "(of_int p :: rat) < pow2 (bitlen p)" using bitlen_pow2_bounds(2)[OF p] .
    also have "\<dots> = pow2 (d + 1) * pow2 (bitlen q - 1)"
      by (simp add: d_def pow2_add[symmetric])
    also have "\<dots> \<le> pow2 (d + 1) * of_int q"
      using bitlen_pow2_bounds(1)[OF q] by (intro mult_left_mono) simp_all
    finally show ?thesis using qr by (simp add: a pos_divide_less_eq)
  qed
  have il: "ilog2 a = (if pow2 d \<le> a then d else d - 1)"
    by (simp add: ilog2_def d_def p_def q_def Let_def)
  show "pow2 (ilog2 a) \<le> a" using lo by (simp add: il)
  show "a < pow2 (ilog2 a + 1)" using hi by (auto simp add: il not_le)
qed

lemma ilog2_unique:
  assumes "pow2 e \<le> a" "a < pow2 (e + 1)"
  shows "ilog2 a = e"
proof -
  have "0 < pow2 e" by simp
  then have pos: "0 < a" using assms(1) by (rule less_le_trans)
  have "pow2 e < pow2 (ilog2 a + 1)"
    using assms(1) ilog2_bounds(2)[OF pos] by simp
  then have 1: "e < ilog2 a + 1" by (rule pow2_less_D)
  have "pow2 (ilog2 a) < pow2 (e + 1)"
    using assms(2) ilog2_bounds(1)[OF pos] by simp
  then have 2: "ilog2 a < e + 1" by (rule pow2_less_D)
  show ?thesis using 1 2 by simp
qed

lemma round_half_even_of_int: "round_half_even (of_int i) = i"
  by (simp add: round_half_even_def)

lemma round_half_even_ge_floor: "\<lfloor>q\<rfloor> \<le> round_half_even q"
  by (simp add: round_half_even_def Let_def)

lemma round_half_even_le_floor: "round_half_even q \<le> \<lfloor>q\<rfloor> + 1"
  by (simp add: round_half_even_def Let_def)

lemma round_double_pos:
  assumes "0 < x"
  shows "round_double x =
    (if pow2 1024 \<le> round_magnitude x then PosInf else Finite (round_magnitude x))"
  using assms by (simp add: round_double_def Let_def)

lemma round_double_minus: "round_double (- x) = js_neg (round_double x)"
  by (simp add: round_double_def Let_def)

lemma round_magnitude_nonneg:
  assumes "0 < x"
  shows "0 \<le> round_magnitude x"
proof -
  define e where "e = double_exponent x"
  have "0 \<le> x / pow2 e" using assms by (simp add: less_imp_le)
  then have "0 \<le> \<lfloor>x / pow2 e\<rfloor>" by simp
  then have "0 \<le> round_half_even (x / pow2 e)"
    using round_half_even_ge_floor[of "x / pow2 e"] by linarith
  then have "(0::rat) \<le> of_int (round_half_even (x / pow2 e)) * pow2 e" by simp
  then show ?thesis by (simp add: round_magnitude_def e_def)
qed

lemma round_double_nonneg:
  assumes "0 \<le> x"
  shows "round_double x = PosInf \<or> (\<exists>y. round_double x = Finite y \<and> 0 \<le> y)"
proof (cases "x = 0")
  case True
  then show ?thesis by (simp add: round_double_def)
next
  case False
  then have pos: "0 < x" using assms by simp
  show ?thesis using round_magnitude_nonneg[OF pos] by (simp add: round_double_pos[OF pos])
qed

lemma half_pow2: "pow2 (- 1) = 1 / 2"
  by (simp add: pow2_def power_int_minus)

lemma round_magnitude_far:
  assumes "1 / 2 \<le> x"
  shows "1 / 2 \<le> round_magnitude x"
proof -
  have pos: "0 < x" using assms by simp
  define k where "k = ilog2 x"
  define e where "e = double_exponent x"
  have "pow2 (- 1) \<le> x" using assms by (simp add: half_pow2)
  also have "x < pow2 (k + 1)" using ilog2_bounds(2)[OF pos] by (simp add: k_def)
  finally have "- 1 < k + 1" by (rule pow2_less_D)
  then have k: "- 1 \<le> k" by simp
  then have e: "e = k - 52" by (simp add: e_def double_exponent_def k_def)
  have "pow2 52 = pow2 k / pow2 e"
    by (simp add: e pow2_diff[symmetric])
  also have "\<dots> \<le> x / pow2 e"
    using ilog2_bounds(1)[OF pos] by (intro divide_right_mono) (simp_all add: k_def)
  finally have "(of_int (2 ^ 52) :: rat) \<le> x / pow2 e" using pow2_nat[of 52] by simp
  then have "2 ^ 52 \<le> \<lfloor>x / pow2 e\<rfloor>" by (simp only: le_floor_iff)
  then have "2 ^ 52 \<le> round_half_even (x / pow2 e)"
    using round_half_even_ge_floor[of "x / pow2 e"] by linarith
  then have "(of_int (2 ^ 52) :: rat) \<le> of_int (round_half_even (x / pow2 e))"
    by (simp only: of_int_le_iff)
  then have "pow2 52 \<le> of_int (round_half_even (x / pow2 e))"
    using pow2_nat[of 52] by simp
  then have "pow2 52 * pow2 e \<le> of_int (round_half_even (x / pow2 e)) * pow2 e"
    by (intro mult_right_mono) simp_all
  moreover have "pow2 52 * pow2 e = pow2 k"
    by (simp add: e pow2_add[symmetric])
  moreover have "pow2 (- 1) \<le> pow2 k"
    using k by (rule pow2_mono)
  ultimately have "1 / 2 \<le> of_int (round_half_even (x / pow2 e)) * pow2 e"
    by (simp add: half_pow2)
  then show ?thesis by (simp add: round_magnitude_def e_def)
qed

lemma pow2_neg_nat: "pow2 (- int n) = 1 / 2 ^ n"
  by (simp add: pow2_def power_int_minus field_simps)

lemma round_magnitude_exact:
  assumes "0 < i" "i < 2 ^ 53" "- 1074 \<le> e"
  shows "round_magnitude (of_int i * pow2 e) = of_int i * pow2 e"
proof -
  define b where "b = bitlen i"
  define a where "a = of_int i * pow2 e"
  define de where "de = double_exponent a"
  have lo: "pow2 (b - 1) \<le> of_int i" and hi: "of_int i < pow2 b"
    using bitlen_pow2_bounds[OF assms(1)] by (simp_all add: b_def)
  have "(of_int i :: rat) < of_int (2 ^ 53)" using assms(2) by (simp only: of_int_less_iff)
  then have "(of_int i :: rat) < pow2 53" using pow2_nat[of 53] by simp
  with lo have "pow2 (b - 1) < pow2 53" by simp
  then have b53: "b \<le> 53" using pow2_less_D[of "b - 1" 53] by simp
  have alo: "pow2 (b - 1 + e) \<le> a"
    unfolding a_def pow2_add using lo by (intro mult_right_mono) simp_all
  have ahi: "a < pow2 (b - 1 + e + 1)"
  proof -
    have "a < pow2 b * pow2 e" unfolding a_def using hi by (intro mult_strict_right_mono) simp_all
    then show ?thesis by (simp add: pow2_add)
  qed
  have k: "ilog2 a = b - 1 + e" using alo ahi by (rule ilog2_unique)
  have de: "de = max (b + e - 53) (- 1074)"
    by (simp add: de_def double_exponent_def k)
  have dele: "de \<le> e" using b53 assms(3) by (simp add: de)
  define n where "n = nat (e - de)"
  have en: "e = int n + de" using dele by (simp add: n_def)
  have q: "a / pow2 de = of_int (i * 2 ^ n)"
    by (simp add: a_def en pow2_add pow2_nat)
  have "round_magnitude a = of_int (i * 2 ^ n) * pow2 de"
    unfolding round_magnitude_def de_def[symmetric] q round_half_even_of_int ..
  also have "\<dots> = a" by (simp add: a_def en pow2_add pow2_nat)
  finally show ?thesis by (simp add: a_def)
qed

lemma round_double_exact_pos:
  assumes "0 < i" "i < 2 ^ 53" "- 1074 \<le> e" "e \<le> 971"
  shows "round_double (of_int i * pow2 e) = Finite (of_int i * pow2 e)"
proof -
  have pos: "(0::rat) < of_int i * pow2 e" using assms(1) by simp
  have "(of_int i :: rat) < of_int (2 ^ 53)" using assms(2) by (simp only: of_int_less_iff)
  then have "(of_int i :: rat) < pow2 53" using pow2_nat[of 53] by simp
  then have "of_int i * pow2 e < pow2 53 * pow2 e" by (intro mult_strict_right_mono) simp_all
  also have "\<dots> = pow2 (53 + e)" by (simp add: pow2_add)
  also have "\<dots> \<le> pow2 1024" using assms(4) by (intro pow2_mono) simp
  finally have "\<not> pow2 1024 \<le> of_int i * pow2 e" by simp
  then show ?thesis
    by (simp only: round_double_pos[OF pos] round_magnitude_exact[OF assms(1-3)] if_False)
qed

lemma round_double_exact:
  assumes "\<bar>i\<bar> < 2 ^ 53" "- 1074 \<le> e" "e \<le> 971"
  shows "round_double (of_int i * pow2 e) = Finite (of_int i * pow2 e)"
proof -
  consider "i = 0" | "0 < i" | "i < 0" by linarith
  then show ?thesis
  proof cases
    case 1
    then show ?thesis by (simp add: round_double_def)
  next
    case 2
    then show ?thesis using assms by (intro round_double_exact_pos) simp_all
  next
    case 3
    then have "round_double (of_int (- i) * pow2 e) = Finite (of_int (- i) * pow2 e)"
      using assms by (intro round_double_exact_pos) simp_all
    then have "round_double (- (of_int i * pow2 e)) = Finite (- (of_int i * pow2 e))" by simp
    then show ?thesis unfolding round_double_minus by (cases "round_double (of_int i * pow2 e)") simp_all
  qed
qed

lemma round_double_grid:
  assumes "round_double x = Finite y" "1 / 2 \<le> y" "y \<le> 2"
  shows "\<exists>j::int. y = of_int j * pow2 (- 53)"
proof -
  have pos: "0 < x"
  proof (rule ccontr)
    assume "\<not> 0 < x"
    then consider "x = 0" | "x < 0" by linarith
    then show False
    proof cases
      case 1
      then show False using assms by (simp add: round_double_def)
    next
      case 2
      then have "0 \<le> - x" by simp
      from round_double_nonneg[OF this] show False
        using assms by (auto simp: round_double_minus)
    qed
  qed
  define k where "k = ilog2 x"
  define e where "e = double_exponent x"
  define m where "m = round_half_even (x / pow2 e)"
  have y: "y = of_int m * pow2 e"
    using assms(1) by (simp add: round_double_pos[OF pos] round_magnitude_def e_def m_def split: if_splits)
  have ek: "k + 1 \<le> e + 53" by (simp add: e_def double_exponent_def k_def)
  have "x < pow2 (k + 1)" using ilog2_bounds(2)[OF pos] by (simp add: k_def)
  also have "\<dots> \<le> pow2 (e + 53)" using ek by (rule pow2_mono)
  finally have "x / pow2 e < pow2 (e + 53) / pow2 e" by (intro divide_strict_right_mono) simp_all
  then have "x / pow2 e < of_int (2 ^ 53)" by (simp add: pow2_add pow2_nat[of 53, simplified])
  then have "\<lfloor>x / pow2 e\<rfloor> < 2 ^ 53" by (simp only: floor_less_iff)
  then have m53: "m \<le> 2 ^ 53"
    using round_half_even_le_floor[of "x / pow2 e"] unfolding m_def by linarith
  then have "(of_int m :: rat) \<le> of_int (2 ^ 53)" by (simp only: of_int_le_iff)
  then have mr: "(of_int m :: rat) \<le> pow2 53" using pow2_nat[of 53] by simp
  have "pow2 (- 1) \<le> of_int m * pow2 e" using assms(2) y by (simp add: half_pow2)
  also have "\<dots> \<le> pow2 53 * pow2 e" using mr by (intro mult_right_mono) simp_all
  also have "\<dots> = pow2 (53 + e)" by (simp add: pow2_add)
  finally have e54: "- 54 \<le> e" using pow2_le_D[of "- 1" "53 + e"] by simp
  show ?thesis
  proof (cases "e = - 54")
    case True
    have "pow2 53 * pow2 (- 54) = pow2 (- 1)" by (simp add: pow2_add[symmetric])
    also have "\<dots> \<le> of_int m * pow2 (- 54)" using assms(2) y True by (simp add: half_pow2)
    finally have "pow2 53 \<le> of_int m" by (simp add: mult_le_cancel_right)
    with mr have "of_int m = pow2 53" by simp
    then have "y = pow2 53 * pow2 (- 54)" using y True by simp
    also have "\<dots> = pow2 52 * pow2 (- 53)" by (simp add: pow2_add[symmetric])
    also have "\<dots> = of_int (2 ^ 52) * pow2 (- 53)" using pow2_nat[of 52] by simp
    finally show ?thesis by blast
  next
    case False
    with e54 have "- 53 \<le> e" by simp
    define n where "n = nat (e + 53)"
    have en: "e = int n + (- 53)" using \<open>- 53 \<le> e\<close> by (simp add: n_def)
    have "pow2 (int n + (- 53)) = pow2 (int n) * pow2 (- 53)" by (rule pow2_add)
    then have "pow2 e = 2 ^ n * pow2 (- 53)" using en by (simp add: pow2_nat)
    then have "y = of_int (m * 2 ^ n) * pow2 (- 53)"
      unfolding y by simp
    then show ?thesis by blast
  qed
qed

lemma pow2_numeral_neg: "pow2 (- numeral n) = 1 / 2 ^ numeral n"
  using pow2_neg_nat[of "numeral n"] by simp

lemma pow2_numeral: "pow2 (numeral n) = 2 ^ numeral n"
  using pow2_nat[of "numeral n"] by simp

lemma round_half_even_down:
  assumes "of_int z \<le> q" "q < of_int z + 1 / 2"
  shows "round_half_even q = z"
proof -
  have "\<lfloor>q\<rfloor> = z" using assms by (intro floor_unique) simp_all
  then show ?thesis using assms by (simp add: round_half_even_def)
qed

lemma epsilon_value: "epsilon = Finite (4722366482869645 * pow2 (- 72))"
proof -
  have k: "ilog2 (1 / 1000000) = - 20"
    by (rule ilog2_unique) (simp_all add: pow2_numeral_neg)
  have e: "double_exponent (1 / 1000000) = - 72"
    unfolding double_exponent_def k by simp
  have q: "round_half_even (1 / 1000000 / pow2 (- 72)) = 4722366482869645"
    by (rule round_half_even_down) (simp_all add: pow2_numeral_neg)
  have m: "round_magnitude (1 / 1000000) = 4722366482869645 * pow2 (- 72)"
    unfolding round_magnitude_def e q by simp
  have "\<not> pow2 1024 \<le> 4722366482869645 * pow2 (- 72)"
    by (simp add: pow2_numeral_neg pow2_numeral)
  then show ?thesis
    by (simp add: epsilon_def round_double_pos m)
qed

lemma epsilon_below: "4722366482869645 * pow2 (- 72) < 1 / 10 ^ 6"
  by (simp add: pow2_numeral_neg)

lemma epsilon_next: "1 / 10 ^ 6 < 4722366482869646 * pow2 (- 72)"
  by (simp add: pow2_numeral_neg)

lemma js_sub_one: "js_sub (Finite s) (Finite 1) = round_double (s - 1)"
  by (simp add: js_sub_def)

lemma far_from_one:
  assumes "1 / 2 \<le> \<bar>d\<bar>"
  shows "js_gt (js_abs (round_double d)) epsilon"
proof -
  have eps: "4722366482869645 * pow2 (- 72) < 1 / 2" by (simp add: pow2_numeral_neg)
  have pos: "js_gt (js_abs (round_double x)) epsilon" if x: "1 / 2 \<le> x" for x
  proof -
    have "0 < x" using x by simp
    then have "round_double x = PosInf \<or> round_double x = Finite (round_magnitude x)"
      by (simp add: round_double_pos)
    then show ?thesis
      using round_magnitude_far[OF x] eps by (auto simp: epsilon_value)
  qed
  show ?thesis
  proof (cases "0 \<le> d")
    case True
    then show ?thesis using assms pos[of d] by simp
  next
    case False
    then have "1 / 2 \<le> - d" using assms by simp
    from pos[OF this] show ?thesis
      unfolding round_double_minus by (cases "round_double d") simp_all
  qed
qed

lemma near_one_exact:
  assumes "round_double x = Finite s" "1 / 2 \<le> s" "s \<le> 2"
  shows "\<exists>i::int. s - 1 = of_int i * pow2 (- 53) \<and> round_double (s - 1) = Finite (s - 1)"
proof -
  obtain j :: int where j: "s = of_int j * pow2 (- 53)"
    using round_double_grid[OF assms] by blast
  have one: "(1::rat) = of_int (2 ^ 53) * pow2 (- 53)" by (simp add: pow2_numeral_neg)
  define i where "i = j - 2 ^ 53"
  have d: "s - 1 = of_int i * pow2 (- 53)"
    by (subst one) (simp add: j i_def algebra_simps)
  have "- (1 / 2) \<le> of_int i * pow2 (- 53)" "of_int i * pow2 (- 53) \<le> 1"
    using assms(2,3) unfolding d[symmetric] by simp_all
  then have "- (2 ^ 52) \<le> (of_int i :: rat)" "(of_int i :: rat) \<le> 2 ^ 53"
    by (simp_all add: pow2_numeral_neg field_simps)
  then have "(of_int (- (2 ^ 52)) :: rat) \<le> of_int i" "(of_int i :: rat) \<le> of_int (2 ^ 53)"
    by simp_all
  then have lo: "- (2 ^ 52) \<le> i" and hi: "i \<le> 2 ^ 53" by (simp_all only: of_int_le_iff)
  have "round_double (s - 1) = Finite (s - 1)"
  proof (cases "i = 2 ^ 53")
    case True
    then have "s - 1 = of_int 1 * pow2 0" using d by (simp add: pow2_numeral_neg pow2_def)
    moreover have "round_double (of_int 1 * pow2 0) = Finite (of_int 1 * pow2 0)"
      by (rule round_double_exact) simp_all
    ultimately show ?thesis by simp
  next
    case False
    with lo hi have "\<bar>i\<bar> < 2 ^ 53" by simp
    then have "round_double (of_int i * pow2 (- 53)) = Finite (of_int i * pow2 (- 53))"
      by (rule round_double_exact) simp_all
    then show ?thesis by (simp add: d)
  qed
  with d show ?thesis by blast
qed

lemma grid_gap:
  fixes i :: int
  shows "4722366482869645 * pow2 (- 72) < \<bar>of_int i * pow2 (- 53)\<bar> \<longleftrightarrow> 1 / 10 ^ 6 < \<bar>of_int i * pow2 (- 53)\<bar>"
proof
  assume "1 / 10 ^ 6 < \<bar>of_int i * pow2 (- 53)\<bar>"
  then show "4722366482869645 * pow2 (- 72) < \<bar>of_int i * pow2 (- 53)\<bar>"
    using epsilon_below by simp
next
  assume a: "4722366482869645 * pow2 (- 72) < \<bar>of_int i * pow2 (- 53)\<bar>"
  have abs: "\<bar>of_int i * pow2 (- 53)\<bar> = of_int (\<bar>i\<bar> * 2 ^ 19) * pow2 (- 72)"
    by (simp add: abs_mult pow2_numeral_neg)
  have "(of_int 4722366482869645 :: rat) * pow2 (- 72) < of_int (\<bar>i\<bar> * 2 ^ 19) * pow2 (- 72)"
    using a unfolding abs by simp
  then have "(of_int 4722366482869645 :: rat) < of_int (\<bar>i\<bar> * 2 ^ 19)"
    by (simp only: mult_less_cancel_right_pos[OF pow2_pos])
  then have "4722366482869645 < \<bar>i\<bar> * 2 ^ 19" by (simp only: of_int_less_iff)
  then have "4722366482869646 \<le> \<bar>i\<bar> * 2 ^ 19" by simp
  then have "(of_int 4722366482869646 :: rat) \<le> of_int (\<bar>i\<bar> * 2 ^ 19)" by (simp only: of_int_le_iff)
  then have "(of_int 4722366482869646 :: rat) * pow2 (- 72) \<le> of_int (\<bar>i\<bar> * 2 ^ 19) * pow2 (- 72)"
    by (intro mult_right_mono) simp_all
  then have "4722366482869646 * pow2 (- 72) \<le> \<bar>of_int i * pow2 (- 53)\<bar>"
    unfolding abs by simp
  with epsilon_next show "1 / 10 ^ 6 < \<bar>of_int i * pow2 (- 53)\<bar>" by simp
qed

lemma share_band:
  assumes "round_double x = Finite s"
  shows "js_gt (js_abs (js_sub (Finite s) (Finite 1))) epsilon
         \<longleftrightarrow> \<not> (1 - 1 / 10 ^ 6 \<le> s \<and> s \<le> 1 + 1 / 10 ^ 6)"
proof (cases "1 / 2 \<le> s \<and> s \<le> 2")
  case True
  then obtain i :: int where i: "s - 1 = of_int i * pow2 (- 53)"
    and ex: "round_double (s - 1) = Finite (s - 1)"
    using near_one_exact[OF assms] by blast
  have "js_gt (js_abs (js_sub (Finite s) (Finite 1))) epsilon
        \<longleftrightarrow> 4722366482869645 * pow2 (- 72) < \<bar>s - 1\<bar>"
    by (simp add: js_sub_one ex epsilon_value)
  also have "\<dots> \<longleftrightarrow> 1 / 10 ^ 6 < \<bar>s - 1\<bar>"
    unfolding i by (rule grid_gap)
  also have "\<dots> \<longleftrightarrow> \<not> (1 - 1 / 10 ^ 6 \<le> s \<and> s \<le> 1 + 1 / 10 ^ 6)"
    by (auto simp: abs_if)
  finally show ?thesis .
next
  case False
  then have far: "1 / 2 \<le> \<bar>s - 1\<bar>" by (auto simp: abs_if)
  have "js_gt (js_abs (js_sub (Finite s) (Finite 1))) epsilon"
    unfolding js_sub_one using far by (rule far_from_one)
  moreover have "\<not> (1 - 1 / 10 ^ 6 \<le> s \<and> s \<le> 1 + 1 / 10 ^ 6)"
    using False by auto
  ultimately show ?thesis by simp
qed

subsection \<open>Literals and a sanity check\<close>

lemma round_half_even_near:
  assumes "\<bar>q - of_int z\<bar> < 1 / 2"
  shows "round_half_even q = z"
proof (cases "of_int z \<le> q")
  case True
  then have "\<lfloor>q\<rfloor> = z" using assms by (intro floor_unique) (simp_all add: abs_if)
  then show ?thesis using assms True by (simp add: round_half_even_def abs_if)
next
  case False
  then have "\<lfloor>q\<rfloor> = z - 1" using assms by (intro floor_unique) (simp_all add: abs_if split: if_splits)
  then show ?thesis using assms False by (simp add: round_half_even_def abs_if split: if_splits)
qed

lemma pow2_zero: "pow2 0 = 1"
  by (simp add: pow2_def)

lemma round_half_even_tie:
  "round_half_even (of_int f + 1 / 2) = (if even f then f else f + 1)"
proof -
  have "\<lfloor>of_int f + (1 / 2 :: rat)\<rfloor> = f" by (intro floor_unique) simp_all
  then show ?thesis by (simp add: round_half_even_def)
qed

lemma round_double_at:
  assumes "pow2 k \<le> x" "x < pow2 (k + 1)" "- 1022 \<le> k" "k \<le> 1022"
    and "round_half_even (x / pow2 (k - 52)) = z"
  shows "round_double x = Finite (of_int z * pow2 (k - 52))"
proof -
  have "0 < pow2 k" by simp
  then have pos: "0 < x" using assms(1) by (rule less_le_trans)
  have k: "ilog2 x = k" using assms(1,2) by (rule ilog2_unique)
  have e: "double_exponent x = k - 52" using assms(3) by (simp add: double_exponent_def k)
  have m: "round_magnitude x = of_int z * pow2 (k - 52)"
    by (simp add: round_magnitude_def e assms(5))
  have "x / pow2 (k - 52) < pow2 (k + 1) / pow2 (k - 52)"
    using assms(2) by (intro divide_strict_right_mono) simp_all
  also have "\<dots> = pow2 (k + 1 - (k - 52))" by (rule pow2_diff[symmetric])
  also have "\<dots> = pow2 53" by simp
  finally have "x / pow2 (k - 52) < of_int (2 ^ 53)" using pow2_nat[of 53] by simp
  then have "\<lfloor>x / pow2 (k - 52)\<rfloor> < 2 ^ 53" by (simp only: floor_less_iff)
  then have "z \<le> 2 ^ 53"
    using round_half_even_le_floor[of "x / pow2 (k - 52)"] unfolding assms(5) by linarith
  then have "(of_int z :: rat) \<le> of_int (2 ^ 53)" by (simp only: of_int_le_iff)
  then have "(of_int z :: rat) \<le> pow2 53" using pow2_nat[of 53] by simp
  then have "of_int z * pow2 (k - 52) \<le> pow2 53 * pow2 (k - 52)"
    by (intro mult_right_mono) simp_all
  also have "\<dots> = pow2 (53 + (k - 52))" by (rule pow2_add[symmetric])
  also have "\<dots> = pow2 (k + 1)" by (simp add: add.commute)
  also have "\<dots> < pow2 1024" using assms(4) by (intro pow2_strict_mono) simp
  finally have "\<not> pow2 1024 \<le> of_int z * pow2 (k - 52)" by simp
  then show ?thesis by (simp add: round_double_pos[OF pos] m)
qed

lemma round_double_near:
  assumes "pow2 k \<le> x" "x < pow2 (k + 1)" "- 1022 \<le> k" "k \<le> 1022"
    and "\<bar>x / pow2 (k - 52) - of_int z\<bar> < 1 / 2"
  shows "round_double x = Finite (of_int z * pow2 (k - 52))"
  using assms(1-4) round_half_even_near[OF assms(5)] by (rule round_double_at)

lemma literal_values:
  "round_double (6 / 10) = d06" "round_double (4 / 10) = d04" "round_double (9 / 10) = d09"
proof -
  have "round_double (6 / 10) = Finite (of_int 5404319552844595 * pow2 (- 1 - 52))"
    by (rule round_double_near) (simp_all add: pow2_numeral_neg half_pow2 pow2_zero)
  then show "round_double (6 / 10) = d06" by (simp add: d06_def pow2_numeral_neg)
  have "round_double (4 / 10) = Finite (of_int 7205759403792794 * pow2 (- 2 - 52))"
    by (rule round_double_near) (simp_all add: pow2_numeral_neg half_pow2 pow2_zero)
  then show "round_double (4 / 10) = d04" by (simp add: d04_def pow2_numeral_neg)
  have "round_double (9 / 10) = Finite (of_int 8106479329266893 * pow2 (- 1 - 52))"
    by (rule round_double_near) (simp_all add: pow2_numeral_neg half_pow2 pow2_zero)
  then show "round_double (9 / 10) = d09" by (simp add: d09_def pow2_numeral_neg)
qed

text \<open>
  The textbook example: \<open>0.1 + 0.2\<close> is \<open>0.30000000000000004\<close>, one step above the value of
  \<open>0.3\<close> (the exact sum lies halfway between two values, and the tie goes to the even one).
\<close>

lemma tenth_plus_fifth:
  "js_add (round_double (1 / 10)) (round_double (2 / 10)) = Finite (5404319552844596 / 2 ^ 54)"
  "round_double (3 / 10) = Finite (5404319552844595 / 2 ^ 54)"
proof -
  have a: "round_double (1 / 10) = Finite (of_int 7205759403792794 * pow2 (- 4 - 52))"
    by (rule round_double_near) (simp_all add: pow2_numeral_neg half_pow2 pow2_zero)
  have b: "round_double (2 / 10) = Finite (of_int 7205759403792794 * pow2 (- 3 - 52))"
    by (rule round_double_near) (simp_all add: pow2_numeral_neg half_pow2 pow2_zero)
  have q: "(of_int 7205759403792794 * pow2 (- 4 - 52) + of_int 7205759403792794 * pow2 (- 3 - 52))
      / pow2 (- 2 - 52) = of_int 5404319552844595 + 1 / 2"
    by (simp add: pow2_numeral_neg)
  have c: "round_double (of_int 7205759403792794 * pow2 (- 4 - 52) + of_int 7205759403792794 * pow2 (- 3 - 52))
      = Finite (of_int 5404319552844596 * pow2 (- 2 - 52))"
  proof (rule round_double_at)
    show "round_half_even ((of_int 7205759403792794 * pow2 (- 4 - 52)
        + of_int 7205759403792794 * pow2 (- 3 - 52)) / pow2 (- 2 - 52)) = 5404319552844596"
      unfolding q round_half_even_tie by simp
  qed (simp_all add: pow2_numeral_neg half_pow2 pow2_zero)
  show "js_add (round_double (1 / 10)) (round_double (2 / 10)) = Finite (5404319552844596 / 2 ^ 54)"
    unfolding a b js_add.simps c by (simp add: pow2_numeral_neg)
  have "round_double (3 / 10) = Finite (of_int 5404319552844595 * pow2 (- 2 - 52))"
    by (rule round_double_near) (simp_all add: pow2_numeral_neg half_pow2 pow2_zero)
  then show "round_double (3 / 10) = Finite (5404319552844595 / 2 ^ 54)"
    by (simp add: pow2_numeral_neg)
qed

section \<open>The share check of createExpense\<close>

lemma gt0_lte1_D:
  assumes "gt0_lte1 n"
  shows "\<exists>b. n = Finite b \<and> 0 < b \<and> b \<le> 1"
  using assms by (cases n) (auto simp: gt0_lte1_def)

lemma rounded_nonneg_step:
  assumes "rounded_nonneg acc" "gt0_lte1 n"
  shows "rounded_nonneg (js_add acc n)"
proof -
  obtain b where b: "n = Finite b" "0 < b" using gt0_lte1_D[OF assms(2)] by blast
  show ?thesis
  proof (cases "acc = PosInf")
    case True
    then show ?thesis by (simp add: b rounded_nonneg_def)
  next
    case False
    then obtain s where s: "acc = Finite s" "0 \<le> s"
      using assms(1) by (auto simp: rounded_nonneg_def)
    have "0 \<le> s + b" using s b by simp
    from round_double_nonneg[OF this] show ?thesis
      by (auto simp: s b rounded_nonneg_def)
  qed
qed

lemma rounded_nonneg_foldl:
  assumes "rounded_nonneg acc" "list_all (\<lambda>p. gt0_lte1 (share p)) ps"
  shows "rounded_nonneg (foldl (\<lambda>s p. js_add s (share p)) acc ps)"
  using assms by (induction ps arbitrary: acc) (simp_all add: rounded_nonneg_step)

lemma share_sum_rounded:
  assumes "list_all ProfiteerLoose_ok ps"
  shows "rounded_nonneg (share_sum ps)"
proof -
  have "rounded_nonneg (Finite 0)"
    unfolding rounded_nonneg_def by (intro disjI2 exI[of _ 0]) (simp add: round_double_def)
  moreover have "list_all (\<lambda>p. gt0_lte1 (share p)) ps"
    using assms by (simp add: list_all_iff ProfiteerLoose_ok_def)
  ultimately show ?thesis unfolding share_sum_def by (rule rounded_nonneg_foldl)
qed

lemma share_mismatch_iff:
  assumes "rounded_nonneg n"
  shows "share_mismatch n \<longleftrightarrow> \<not> within_tolerance n"
proof (cases "n = PosInf")
  case True
  then show ?thesis
    by (simp add: share_mismatch_def js_sub_def epsilon_value within_tolerance_def)
next
  case False
  then obtain x s where "n = Finite s" "round_double x = Finite s"
    using assms by (auto simp: rounded_nonneg_def)
  then show ?thesis
    using share_band[of x s] by (simp add: share_mismatch_def within_tolerance_def)
qed

section \<open>Evaluating the examples\<close>

lemma round_double_grid53:
  assumes "\<bar>i\<bar> \<le> 2 ^ 53"
  shows "round_double (of_int i / 2 ^ 53) = Finite (of_int i / 2 ^ 53)"
proof (cases "\<bar>i\<bar> = 2 ^ 53")
  case True
  then have "i = 2 ^ 53 \<or> i = - (2 ^ 53)" by linarith
  moreover have "round_double (of_int 1 * pow2 0) = Finite (of_int 1 * pow2 0)"
    by (rule round_double_exact) simp_all
  moreover have "round_double (of_int (- 1) * pow2 0) = Finite (of_int (- 1) * pow2 0)"
    by (rule round_double_exact) simp_all
  ultimately show ?thesis by (auto simp: pow2_def)
next
  case False
  with assms have "\<bar>i\<bar> < 2 ^ 53" by simp
  then have "round_double (of_int i * pow2 (- 53)) = Finite (of_int i * pow2 (- 53))"
    by (rule round_double_exact) simp_all
  then show ?thesis by (simp add: pow2_numeral_neg)
qed

lemma sum_dinner: "share_sum (profiteers dinner) = Finite 1"
  using round_double_grid53[of 5404319552844595] round_double_grid53[of "2 ^ 53"]
  by (simp add: share_sum_def dinner_def d06_def d04_def)

lemma sum_short_dinner: "share_sum (profiteers short_dinner) = d09"
  using round_double_grid53[of "2 ^ 52"] round_double_grid53[of 8106479329266893]
  by (simp add: share_sum_def short_dinner_def dinner_def d09_def d04_def)

lemma example_default_group:
  "select_group (splidApi example_client ''CODE'') (selector dinner) [] =
     (Inr \<lparr>group_id = ''g1'', group_currencyCode = JString ''CHF''\<rparr>,
      [Group_getByInviteCode ''CODE'', GroupInfo_getOneByGroup ''g1''])"
  by (simp add: select_group_def selector_def dinner_def truthy_opt_def of_optional_def
      splidApi_def splidApi_getDefaultGroup_def group_by_code_def group_by_id_def group_of_info_def
      await_call_def eff_bind_def eff_return_def eff_of_result_def member_access_def nullish_def
      example_client_def)

section \<open>C1: the share sum check\<close>

text \<open>
  C1. In createExpense, once the group is resolved, the shares that the schema accepts are
  summed in binary64 arithmetic, starting from 0. If the computed sum lies in \<open>[1 - 1e-6, 1 + 1e-6]\<close> the
  check passes and the handler goes on with name resolution; if it lies outside, the handler
  returns (it does not throw) a result flagged \<open>isError\<close> whose text is
  \<open>Shares must sum to 1. Current sum: \<close> followed by exactly the computed sum.
\<close>

theorem createExpense_share_sum_validation:
  assumes "CreateExpenseInput_ok a"
    and "select_group splid (selector a) s = (Inr g, s')"
  shows "(within_tolerance (share_sum (profiteers a)) \<longrightarrow>
            \<not> share_mismatch (share_sum (profiteers a))
            \<and> createExpense_handler splid a s =
                create_after_validation splid a g
                  (coalesce (of_optional (currencyCode a))
                     (coalesce (group_currencyCode g) (JString ''EUR''))) s')
       \<and> (\<not> within_tolerance (share_sum (profiteers a)) \<longrightarrow>
            share_mismatch (share_sum (profiteers a))
            \<and> createExpense_handler splid a s =
                (Inr \<lparr>content = [[Lit ''Shares must sum to 1. Current sum: '',
                                   NumberToString (share_sum (profiteers a))]],
                      isError = True\<rparr>, s'))"
proof -
  have iff: "share_mismatch (share_sum (profiteers a)) \<longleftrightarrow> \<not> within_tolerance (share_sum (profiteers a))"
    using assms(1) by (intro share_mismatch_iff share_sum_rounded) (simp add: CreateExpenseInput_ok_def)
  show ?thesis
    using assms(2)
    by (simp add: iff createExpense_handler_def eff_bind_def eff_return_def error_result_def Let_def)
qed

theorem createExpense_share_sum_validation_witness:
  "CreateExpenseInput_ok short_dinner
   \<and> \<not> within_tolerance (share_sum (profiteers short_dinner))
   \<and> createExpense_handler (splidApi example_client ''CODE'') short_dinner [] =
       (Inr \<lparr>content = [[Lit ''Shares must sum to 1. Current sum: '', NumberToString d09]],
             isError = True\<rparr>,
        [Group_getByInviteCode ''CODE'', GroupInfo_getOneByGroup ''g1''])
   \<and> CreateExpenseInput_ok dinner
   \<and> within_tolerance (share_sum (profiteers dinner))
   \<and> \<not> share_mismatch (share_sum (profiteers dinner))"
proof -
  have ok1: "CreateExpenseInput_ok short_dinner"
    by (simp add: short_dinner_def dinner_def CreateExpenseInput_ok_def PayerLoose_ok_def
        ProfiteerLoose_ok_def positive_def gt0_lte1_def d04_def truthy_opt_def of_optional_def)
  have ok2: "CreateExpenseInput_ok dinner"
    by (simp add: dinner_def CreateExpenseInput_ok_def PayerLoose_ok_def
        ProfiteerLoose_ok_def positive_def gt0_lte1_def d04_def d06_def truthy_opt_def of_optional_def)
  have sel: "selector short_dinner = selector dinner"
    by (simp add: short_dinner_def selector_def)
  have g1: "select_group (splidApi example_client ''CODE'') (selector short_dinner) [] =
     (Inr \<lparr>group_id = ''g1'', group_currencyCode = JString ''CHF''\<rparr>,
      [Group_getByInviteCode ''CODE'', GroupInfo_getOneByGroup ''g1''])"
    unfolding sel by (rule example_default_group)
  have out: "\<not> within_tolerance (share_sum (profiteers short_dinner))"
    by (simp add: sum_short_dinner d09_def within_tolerance_def)
  have inb: "within_tolerance (share_sum (profiteers dinner))"
    by (simp add: sum_dinner within_tolerance_def)
  show ?thesis
    using createExpense_share_sum_validation[OF ok1 g1]
      createExpense_share_sum_validation[OF ok2 example_default_group]
      ok1 ok2 out inb
    by (simp add: sum_short_dinner)
qed

section \<open>Name resolution\<close>

lemma map_of_add_member:
  assumes "key \<noteq> ''__proto__''"
  shows "map_of (add_member tbl m) key =
     (if is_member m \<and> toLowerCase (string_of (field m ''name'')) = key
      then Some (JString (string_of (field m ''GlobalId''))) else map_of tbl key)"
proof -
  have "field m ''GlobalId'' = JString (string_of (field m ''GlobalId''))"
    if "is_string (field m ''GlobalId'')"
    using that by (cases "field m ''GlobalId''") (simp_all add: is_string_def string_of_def)
  then show ?thesis
    using assms by (auto simp: add_member_def is_member_def obj_set_def update_conv')
qed

lemma map_of_foldl_add_member:
  assumes "key \<noteq> ''__proto__''"
  shows "map_of (foldl add_member tbl ms) key =
     (case snapshot_id ms key of Some g \<Rightarrow> Some (JString g) | None \<Rightarrow> map_of tbl key)"
proof (induction ms arbitrary: tbl)
  case Nil
  then show ?case by simp
next
  case (Cons m ms)
  show ?case
    by (simp add: Cons.IH map_of_add_member[OF assms] split: option.splits)
qed

lemma nameToGlobalId_lookup:
  assumes "key \<noteq> ''__proto__''" "snapshot_id ms key = Some g"
  shows "obj_get (nameToGlobalId ms) key = JString g"
  using assms by (simp add: obj_get_def nameToGlobalId_def map_of_foldl_add_member)

lemma lower_Alice: "toLowerCase ''Alice'' = ''alice''"
  by code_simp

lemma lower_Bob: "toLowerCase ''Bob'' = ''bob''"
  by code_simp

lemma no_mismatch_one: "\<not> share_mismatch (Finite 1)"
  by (simp add: share_mismatch_def js_sub_def round_double_def epsilon_value not_less)

lemma dinner_names:
  "dedupe (missingPayerNames (payers dinner) @ missingProfiteerNames (profiteers dinner)) = [''Alice'', ''Bob'']"
  by (simp add: dedupe_def missingPayerNames_def missingProfiteerNames_def dinner_def
      List.map_filter_def truthy_opt_def of_optional_def)

lemma dinner_resolved:
  assumes "snapshot_id snapshot ''alice'' = Some aliceId" "aliceId \<noteq> []"
    and "snapshot_id snapshot ''bob'' = Some bobId" "bobId \<noteq> []"
  shows "resolve_names (nameToGlobalId snapshot) [''Alice'', ''Bob''] [] =
     Inr [(''Alice'', JString aliceId), (''Bob'', JString bobId)]"
proof -
  have a: "obj_get (nameToGlobalId snapshot) ''alice'' = JString aliceId"
    using assms(1) by (intro nameToGlobalId_lookup) simp_all
  have b: "obj_get (nameToGlobalId snapshot) ''bob'' = JString bobId"
    using assms(3) by (intro nameToGlobalId_lookup) simp_all
  show ?thesis
    using assms(2,4) by (simp add: lower_Alice lower_Bob a b obj_set_def)
qed

lemma example_members:
  "listMembers (splidApi example_client ''CODE'') ''g1'' calls =
     (Inr (JObject [(''result'', JObject [(''results'', JArray [alice, bob])])]),
      calls @ [Person_getByGroup ''g1''])"
  by (simp add: splidApi_def splidApi_listMembers_def await_call_def example_client_def)

lemma example_member_list:
  "member_list (JObject [(''result'', JObject [(''results'', JArray [alice, bob])])]) = Inr [alice, bob]"
  by (simp add: member_list_def nullish_def coalesce_def iterate_def)

lemma example_snapshot:
  "snapshot_id [alice, bob] ''alice'' = Some ''id-alice''"
  "snapshot_id [alice, bob] ''bob'' = Some ''id-bob''"
  by (simp_all add: alice_def bob_def is_member_def is_string_def string_of_def lower_Alice lower_Bob)

section \<open>C2: the end-to-end example\<close>

text \<open>
  C2. A createExpense call with the payer Alice (12.5) and the profiteers Bob (0.6) and
  Alice (0.4), given by name only, against a group whose member snapshot holds Alice and Bob
  (with non-empty stable identifiers): the share check passes, both names are resolved, and
  \<open>createExpense\<close> of the group service receives the amount 12.5, the payer
  \<open>{userId: Alice's id, amount: 12.5}\<close> and the profiteers \<open>{Bob's id, 0.6}\<close>,
  \<open>{Alice's id, 0.4}\<close>: identifiers, no names. The tool returns the serialised answer of
  that call, not flagged as an error.
\<close>

theorem createExpense_end_to_end:
  assumes "payers a = payers dinner" "profiteers a = profiteers dinner"
    and "amount a = Finite (25 / 2)"
    and "select_group splid (selector a) s = (Inr g, s1)"
    and "listMembers splid (group_id g) s1 = (Inr members, s2)"
    and "member_list members = Inr snapshot"
    and "snapshot_id snapshot ''alice'' = Some aliceId" "aliceId \<noteq> []"
    and "snapshot_id snapshot ''bob'' = Some bobId" "bobId \<noteq> []"
  shows "createExpense_handler splid a s =
     (case createExpense splid
        \<lparr>input_groupId = group_id g, input_title = title a,
         input_amount = Finite (25 / 2),
         input_currencyCode = coalesce (of_optional (currencyCode a))
                                (coalesce (group_currencyCode g) (JString ''EUR'')),
         input_payers = [\<lparr>np_userId = JString aliceId, np_amount = Finite (25 / 2)\<rparr>],
         input_profiteers = [\<lparr>nf_userId = JString bobId, nf_share = d06\<rparr>,
                             \<lparr>nf_userId = JString aliceId, nf_share = d04\<rparr>]\<rparr> s2 of
        (Inl e, s3) \<Rightarrow> (Inl e, s3)
      | (Inr result, s3) \<Rightarrow> (Inr \<lparr>content = [[JsonStringify result]], isError = False\<rparr>, s3))"
proof -
  have sum: "share_sum (profiteers a) = Finite 1"
    by (simp add: assms(2) sum_dinner)
  have names: "dedupe (missingPayerNames (payers a) @ missingProfiteerNames (profiteers a)) = [''Alice'', ''Bob'']"
    by (simp add: assms(1,2) dinner_names)
  have res: "resolveUserIdsByName splid (group_id g) [''Alice'', ''Bob''] s1 =
      (Inr [(''Alice'', JString aliceId), (''Bob'', JString bobId)], s2)"
    by (simp add: resolveUserIdsByName_def eff_bind_def eff_of_result_def assms(5,6)
        dinner_resolved[OF assms(7-10)] del: resolve_names.simps)
  have nps: "normalizedPayers [(''Alice'', JString aliceId), (''Bob'', JString bobId)] (payers a) =
      [\<lparr>np_userId = JString aliceId, np_amount = Finite (25 / 2)\<rparr>]"
    by (simp add: assms(1) dinner_def normalizedPayers_def coalesce_def nullish_def of_optional_def
        obj_get_def as_string_def)
  have nfs: "normalizedProfiteers [(''Alice'', JString aliceId), (''Bob'', JString bobId)] (profiteers a) =
      [\<lparr>nf_userId = JString bobId, nf_share = d06\<rparr>, \<lparr>nf_userId = JString aliceId, nf_share = d04\<rparr>]"
    by (simp add: assms(2) dinner_def normalizedProfiteers_def coalesce_def nullish_def of_optional_def
        obj_get_def as_string_def)
  have after: "create_after_validation splid a g c s1 =
     (case createExpense splid
        \<lparr>input_groupId = group_id g, input_title = title a,
         input_amount = Finite (25 / 2), input_currencyCode = c,
         input_payers = [\<lparr>np_userId = JString aliceId, np_amount = Finite (25 / 2)\<rparr>],
         input_profiteers = [\<lparr>nf_userId = JString bobId, nf_share = d06\<rparr>,
                             \<lparr>nf_userId = JString aliceId, nf_share = d04\<rparr>]\<rparr> s2 of
        (Inl e, s3) \<Rightarrow> (Inl e, s3)
      | (Inr result, s3) \<Rightarrow> (Inr \<lparr>content = [[JsonStringify result]], isError = False\<rparr>, s3))" for c
    using assms(8,10)
    by (simp add: create_after_validation_def names res nps nfs assms(3) eff_bind_def eff_return_def
        text_result_def Let_def split: prod.splits sum.splits)
  show ?thesis
    by (simp add: createExpense_handler_def eff_bind_def assms(4) sum no_mismatch_one after Let_def)
qed


theorem createExpense_end_to_end_witness:
  "createExpense_handler (splidApi example_client ''CODE'') dinner [] =
     (Inr \<lparr>content = [[JsonStringify (JString ''created'')]], isError = False\<rparr>,
      [Group_getByInviteCode ''CODE'', GroupInfo_getOneByGroup ''g1'', Person_getByGroup ''g1'',
       Entry_expense_create
         \<lparr>opt_groupId = ''g1'', opt_title = ''Dinner'',
          opt_payers = [\<lparr>cp_id = JString ''id-alice'', cp_amount = Finite (25 / 2)\<rparr>],
          opt_currencyCode = JString ''CHF''\<rparr>
         \<lparr>item_amount = Finite (25 / 2),
          item_profiteers = [\<lparr>cf_id = JString ''id-bob'', cf_share = d06\<rparr>,
                             \<lparr>cf_id = JString ''id-alice'', cf_share = d04\<rparr>]\<rparr>])"
proof -
  have amt: "amount dinner = Finite (25 / 2)" by (simp add: dinner_def)
  have a: "''id-alice'' \<noteq> []" and b: "''id-bob'' \<noteq> []" by simp_all
  have mem: "listMembers (splidApi example_client ''CODE'')
       (group_id \<lparr>group_id = ''g1'', group_currencyCode = JString ''CHF''\<rparr>)
       [Group_getByInviteCode ''CODE'', GroupInfo_getOneByGroup ''g1''] =
     (Inr (JObject [(''result'', JObject [(''results'', JArray [alice, bob])])]),
      [Group_getByInviteCode ''CODE'', GroupInfo_getOneByGroup ''g1'', Person_getByGroup ''g1''])"
    by (simp add: example_members)
  show ?thesis
    using createExpense_end_to_end[OF refl refl amt example_default_group mem
        example_member_list example_snapshot(1) a example_snapshot(2) b]
    by (simp add: splidApi_def splidApi_createExpense_def await_call_def example_client_def
        dinner_def coalesce_def nullish_def of_optional_def Let_def)
qed

section \<open>C3 and C4: what the name resolver returns\<close>

lemma lower_constructor: "toLowerCase ''constructor'' = ''constructor''"
  by code_simp

lemma lower_proto: "toLowerCase ''__proto__'' = ''__proto__''"
  by code_simp

text \<open>Outside the inherited keys the resolver behaves as specified.\<close>

lemma obj_get_absent:
  assumes "key \<notin> set object_prototype_keys" "snapshot_id ms key = None"
  shows "obj_get (nameToGlobalId ms) key = JUndefined"
proof -
  have "key \<noteq> ''__proto__''" using assms(1) by (auto simp: object_prototype_keys_def)
  then show ?thesis
    using assms by (simp add: obj_get_def nameToGlobalId_def map_of_foldl_add_member)
qed

lemma resolve_names_prefix:
  assumes "\<forall>n \<in> set ns. truthy (obj_get tbl (toLowerCase n))"
    and "\<not> truthy (obj_get tbl (toLowerCase n'))"
  shows "resolve_names tbl (ns @ n' # rest) resolved = Inl (Error (''Unknown member name: '' @ n'))"
  using assms by (induction ns arbitrary: resolved) (simp_all add: Let_def)

lemma resolve_names_unknown:
  assumes "\<forall>n \<in> set ns. truthy (obj_get (nameToGlobalId ms) (toLowerCase n))"
    and "toLowerCase n' \<notin> set object_prototype_keys"
    and "snapshot_id ms (toLowerCase n') = None"
  shows "resolve_names (nameToGlobalId ms) (ns @ n' # rest) [] = Inl (Error (''Unknown member name: '' @ n'))"
  using assms(1) by (rule resolve_names_prefix) (simp add: obj_get_absent[OF assms(2,3)])

lemma resolve_names_single:
  assumes "toLowerCase n1 = toLowerCase n2"
    and "snapshot_id ms (toLowerCase n1) = Some g" "g \<noteq> []"
    and "toLowerCase n1 \<noteq> ''__proto__''"
  shows "resolve_names (nameToGlobalId ms) [n1] [] = Inr [(n1, JString g)]"
    and "resolve_names (nameToGlobalId ms) [n2] [] = Inr [(n2, JString g)]"
proof -
  have l: "obj_get (nameToGlobalId ms) (toLowerCase n1) = JString g"
    using assms(4,2) by (rule nameToGlobalId_lookup)
  have n1: "n1 \<noteq> ''__proto__''" using assms(4) lower_proto by auto
  have n2: "n2 \<noteq> ''__proto__''" using assms(1,4) lower_proto by auto
  show "resolve_names (nameToGlobalId ms) [n1] [] = Inr [(n1, JString g)]"
    using assms(3) n1 by (simp add: l obj_set_def)
  show "resolve_names (nameToGlobalId ms) [n2] [] = Inr [(n2, JString g)]"
    using assms(3) n2 by (simp add: l assms(1)[symmetric] obj_set_def)
qed

text \<open>
  C3. A display name present in the snapshot should resolve to that member's stable
  identifier, whatever the casing of the input. The code fails this for a member whose display
  name is \<open>__proto__\<close>: the assignment to \<open>nameToGlobalId["__proto__"]\<close> stores nothing, the
  lookup finds the inherited property, and the resolver returns a mapping in which the name
  stands for \<open>Object.prototype\<close> instead of the identifier \<open>id-1\<close>.
\<close>

theorem resolveUserIdsByName_proto_member:
  "snapshot_id [proto_member] (toLowerCase ''__proto__'') = Some ''id-1''
   \<and> resolveUserIdsByName (splidApi proto_client ''CODE'') ''g1'' [''__proto__''] [] =
       (Inr [], [Person_getByGroup ''g1''])
   \<and> obj_get [] ''__proto__'' = JBuiltin ''__proto__''"
  by (simp add: lower_proto proto_member_def is_member_def is_string_def string_of_def
      resolveUserIdsByName_def splidApi_def splidApi_listMembers_def await_call_def
      proto_client_def example_client_def eff_bind_def eff_of_result_def member_list_def
      nullish_def coalesce_def iterate_def nameToGlobalId_def add_member_def obj_set_def obj_get_def
      object_prototype_keys_def)

text \<open>
  C4. A name absent from the snapshot should make the resolver fail with
  \<open>Unknown member name: \<close> and the name. The code does not fail for the absent name
  \<open>constructor\<close>: the lookup in the plain object finds the property inherited from
  \<open>Object.prototype\<close>, and the resolver returns a mapping from the name to that built-in.
\<close>

theorem resolveUserIdsByName_inherited_name:
  "snapshot_id [alice, bob] (toLowerCase ''constructor'') = None
   \<and> resolveUserIdsByName (splidApi example_client ''CODE'') ''g1'' [''constructor''] [] =
       (Inr [(''constructor'', JBuiltin ''constructor'')], [Person_getByGroup ''g1''])"
  by (simp add: lower_constructor lower_Alice lower_Bob alice_def bob_def is_member_def
      is_string_def string_of_def
      resolveUserIdsByName_def splidApi_def splidApi_listMembers_def await_call_def
      example_client_def eff_bind_def eff_of_result_def member_list_def
      nullish_def coalesce_def iterate_def nameToGlobalId_def add_member_def obj_set_def obj_get_def
      object_prototype_keys_def Let_def)

section \<open>C5: which group a tool works on\<close>

lemma splidApi_simps:
  "getDefaultGroup (splidApi client CODE) = splidApi_getDefaultGroup client CODE"
  "resolveGroup (splidApi client CODE) = splidApi_resolveGroup client CODE"
  "listMembers (splidApi client CODE) = splidApi_listMembers client"
  "createExpense (splidApi client CODE) = splidApi_createExpense client"
  "listEntries (splidApi client CODE) = splidApi_listEntries client"
  "getGroupSummary (splidApi client CODE) = splidApi_getGroupSummary client"
  by (simp_all add: splidApi_def)

lemma example_by_id:
  "group_by_id example_client gid calls =
     (Inr \<lparr>group_id = gid, group_currencyCode = JString ''CHF''\<rparr>, calls @ [GroupInfo_getOneByGroup gid])"
  by (simp add: group_by_id_def group_of_info_def eff_bind_def await_call_def eff_of_result_def
      eff_return_def member_access_def nullish_def example_client_def)

lemma example_by_code:
  "group_by_code example_client code calls =
     (Inr \<lparr>group_id = ''g1'', group_currencyCode = JString ''CHF''\<rparr>,
      calls @ [Group_getByInviteCode code, GroupInfo_getOneByGroup ''g1''])"
proof -
  have "group_getByInviteCode example_client calls code = Inr ''g1''"
    by (simp add: example_client_def)
  then show ?thesis
    by (simp add: group_by_code_def example_by_id eff_bind_def await_call_def)
qed

lemma truthy_opt_present: "truthy_opt s = present s"
  by (cases s) (simp_all add: truthy_opt_def of_optional_def present_def)

lemma select_group_policy:
  "select_group (splidApi client CODE) sel =
     group_policy client CODE (groupId sel) (groupCode sel) (groupName sel)"
  by (simp add: select_group_def splidApi_simps splidApi_resolveGroup_def
      splidApi_getDefaultGroup_def group_policy_def truthy_opt_present)

lemma selector_fields:
  "groupId (selector a) = groupId a" "groupCode (selector a) = groupCode a"
  "groupName (selector a) = groupName a"
  by (simp_all add: selector_def)

lemma group_by_id_unfold:
  "group_by_id client gid calls =
     (case groupInfo_getOneByGroup client calls gid of
        Inl e \<Rightarrow> (Inl e, calls @ [GroupInfo_getOneByGroup gid])
      | Inr info \<Rightarrow>
          (case member_access info ''defaultCurrencyCode'' of
             Inl e \<Rightarrow> (Inl e, calls @ [GroupInfo_getOneByGroup gid])
           | Inr cc \<Rightarrow> (Inr \<lparr>group_id = gid, group_currencyCode = cc\<rparr>,
                        calls @ [GroupInfo_getOneByGroup gid])))"
  by (simp add: group_by_id_def group_of_info_def eff_bind_def await_call_def eff_of_result_def
      eff_return_def split: sum.splits)

lemma group_by_code_unfold:
  "group_by_code client code calls =
     (case group_getByInviteCode client calls code of
        Inl e \<Rightarrow> (Inl e, calls @ [Group_getByInviteCode code])
      | Inr gid \<Rightarrow> group_by_id client gid (calls @ [Group_getByInviteCode code]))"
  by (simp add: group_by_code_def eff_bind_def await_call_def split: sum.splits)

lemma summary_by_code:
  "group_by_code summary_client code calls =
     (Inr \<lparr>group_id = ''g1'', group_currencyCode = JString ''CHF''\<rparr>,
      calls @ [Group_getByInviteCode code, GroupInfo_getOneByGroup ''g1''])"
  by (simp add: group_by_code_unfold group_by_id_unfold summary_client_def example_client_def
      member_access_def nullish_def)

lemma example_summary:
  "splidApi_getGroupSummary summary_client gid calls =
     (Inr (JObject [(''balance'', JNull)]),
      calls @ [Person_getByGroup gid, Entry_getByGroup gid (Finite 0) (Finite 100),
               GroupInfo_getOneByGroup gid])"
  by (simp add: splidApi_getGroupSummary_def eff_bind_def await_call_def eff_of_result_def
      eff_return_def result_results_def member_access_def nullish_def summary_client_def
      example_client_def)

lemma example_entries:
  "splidApi_listEntries example_client \<lparr>entries_groupId = gid, entries_limit = Some l\<rparr> calls =
     (Inr (JArray []), calls @ [Entry_getByGroup gid (Finite 0) l])"
  by (simp add: splidApi_listEntries_def await_call_def example_client_def)

lemma example_create:
  "splidApi_createExpense example_client input calls =
     (Inr (JString ''created''),
      calls @ [Entry_expense_create
        \<lparr>opt_groupId = input_groupId input, opt_title = input_title input,
         opt_payers = map (\<lambda>p. \<lparr>cp_id = np_userId p, cp_amount = np_amount p\<rparr>) (input_payers input),
         opt_currencyCode = input_currencyCode input\<rparr>
        \<lparr>item_amount = input_amount input,
         item_profiteers = map (\<lambda>p. \<lparr>cf_id = nf_userId p, cf_share = nf_share p\<rparr>)
                               (input_profiteers input)\<rparr>])"
  by (simp add: splidApi_createExpense_def await_call_def example_client_def Let_def)

lemma example_resolve:
  "resolveUserIdsByName (splidApi example_client ''CODE'') gid [''Alice'', ''Bob''] calls =
     (Inr [(''Alice'', JString ''id-alice''), (''Bob'', JString ''id-bob'')],
      calls @ [Person_getByGroup gid])"
proof -
  have m: "listMembers (splidApi example_client ''CODE'') gid calls =
     (Inr (JObject [(''result'', JObject [(''results'', JArray [alice, bob])])]),
      calls @ [Person_getByGroup gid])"
    by (simp add: splidApi_def splidApi_listMembers_def await_call_def example_client_def)
  have r: "resolve_names (nameToGlobalId [alice, bob]) [''Alice'', ''Bob''] [] =
     Inr [(''Alice'', JString ''id-alice''), (''Bob'', JString ''id-bob'')]"
    using dinner_resolved[OF example_snapshot(1) _ example_snapshot(2)] by simp
  show ?thesis
    by (simp add: resolveUserIdsByName_def eff_bind_def eff_of_result_def m example_member_list r
        del: resolve_names.simps)
qed

text \<open>
  C5. The group a tool works on. A selector field is present when it is supplied and not empty
  (the code tests its truthiness). \<open>group_policy\<close> is the policy in the words of the
  specification: with a present \<open>groupId\<close> the group is looked up by that identifier, whatever
  the other fields are; otherwise with a present \<open>groupCode\<close> it is joined by that invite
  code; otherwise a present \<open>groupName\<close> fails with the error
  \<open>Group selection by name is not supported yet\<close>, before any call of the collaborator; with
  no field present the group is resolved from the configured invite code.

  Each of createExpense, listEntries and getGroupSummary, run on its own argument record, is
  that policy applied to the record's own \<open>groupId\<close>, \<open>groupCode\<close> and \<open>groupName\<close>, followed
  by the rest of the tool, which is written out: when the policy fails nothing else happens,
  and otherwise the identifier of the resolved group is the one the members are read from and
  the expense is created in (createExpense), the one the entries are listed of (listEntries),
  and the one the summary is computed for (getGroupSummary). The lookups themselves are written
  out too: a lookup by identifier asks \<open>groupInfo.getOneByGroup\<close> for that identifier and keeps
  the identifier; a lookup by code first calls \<open>group.getByInviteCode\<close> on this very call, so the
  default group is resolved afresh each time and nothing is cached.
\<close>

theorem group_resolution_policy:
  "createExpense_handler (splidApi client CODE) a =
     eff_bind (group_policy client CODE (groupId a) (groupCode a) (groupName a)) (\<lambda>g.
       if share_mismatch (share_sum (profiteers a))
       then eff_return \<lparr>content = [[Lit ''Shares must sum to 1. Current sum: '',
                                     NumberToString (share_sum (profiteers a))]],
                        isError = True\<rparr>
       else eff_bind
         (if dedupe (missingPayerNames (payers a) @ missingProfiteerNames (profiteers a)) \<noteq> []
          then resolveUserIdsByName (splidApi client CODE) (group_id g)
                 (dedupe (missingPayerNames (payers a) @ missingProfiteerNames (profiteers a)))
          else eff_return []) (\<lambda>nameToId.
         if list_ex (\<lambda>p. \<not> truthy (np_userId p)) (normalizedPayers nameToId (payers a))
            \<or> list_ex (\<lambda>p. \<not> truthy (nf_userId p)) (normalizedProfiteers nameToId (profiteers a))
         then eff_return \<lparr>content = [[Lit ''Failed to resolve all user names to IDs'']],
                          isError = True\<rparr>
         else eff_bind (splidApi_createExpense client
                \<lparr>input_groupId = group_id g, input_title = title a, input_amount = amount a,
                 input_currencyCode = coalesce (of_optional (currencyCode a))
                                        (coalesce (group_currencyCode g) (JString ''EUR'')),
                 input_payers = normalizedPayers nameToId (payers a),
                 input_profiteers = normalizedProfiteers nameToId (profiteers a)\<rparr>) (\<lambda>result.
              eff_return \<lparr>content = [[JsonStringify result]], isError = False\<rparr>)))
   \<and> listEntries_handler (splidApi client CODE) b =
     eff_bind (group_policy client CODE (groupId b) (groupCode b) (groupName b)) (\<lambda>g.
       eff_bind (splidApi_listEntries client
          \<lparr>entries_groupId = group_id g,
           entries_limit = Some (case limit b of None \<Rightarrow> Finite 20 | Some l \<Rightarrow> l)\<rparr>) (\<lambda>entries.
       eff_return \<lparr>content = [[JsonStringify entries]], isError = False\<rparr>))
   \<and> getGroupSummary_handler (splidApi client CODE) c =
     eff_bind (group_policy client CODE (groupId c) (groupCode c) (groupName c)) (\<lambda>g.
       eff_bind (splidApi_getGroupSummary client (group_id g)) (\<lambda>summary.
       eff_return \<lparr>content = [[JsonStringify summary]], isError = False\<rparr>))
   \<and> select_group (splidApi client CODE) sel =
       group_policy client CODE (groupId sel) (groupCode sel) (groupName sel)
   \<and> (i = Some gid \<and> gid \<noteq> [] \<longrightarrow> group_policy client CODE i j n = group_by_id client gid)
   \<and> (\<not> present i \<and> j = Some code \<and> code \<noteq> [] \<longrightarrow>
        group_policy client CODE i j n = group_by_code client code)
   \<and> (\<not> present i \<and> \<not> present j \<and> present n \<longrightarrow>
        (\<forall>calls. group_policy client CODE i j n calls =
           (Inl (Error ''Group selection by name is not supported yet''), calls)))
   \<and> (\<not> present i \<and> \<not> present j \<and> \<not> present n \<longrightarrow>
        group_policy client CODE i j n = group_by_code client CODE)
   \<and> (\<forall>calls. group_by_id client gid calls =
        (case groupInfo_getOneByGroup client calls gid of
           Inl e \<Rightarrow> (Inl e, calls @ [GroupInfo_getOneByGroup gid])
         | Inr info \<Rightarrow>
             (case member_access info ''defaultCurrencyCode'' of
                Inl e \<Rightarrow> (Inl e, calls @ [GroupInfo_getOneByGroup gid])
              | Inr cc \<Rightarrow> (Inr \<lparr>group_id = gid, group_currencyCode = cc\<rparr>,
                           calls @ [GroupInfo_getOneByGroup gid]))))
   \<and> (\<forall>calls. group_by_code client code calls =
        (case group_getByInviteCode client calls code of
           Inl e \<Rightarrow> (Inl e, calls @ [Group_getByInviteCode code])
         | Inr gid' \<Rightarrow> group_by_id client gid' (calls @ [Group_getByInviteCode code])))"
proof -
  have ce: "createExpense_handler (splidApi client CODE) a =
     eff_bind (group_policy client CODE (groupId a) (groupCode a) (groupName a)) (\<lambda>g.
       if share_mismatch (share_sum (profiteers a))
       then eff_return \<lparr>content = [[Lit ''Shares must sum to 1. Current sum: '',
                                     NumberToString (share_sum (profiteers a))]],
                        isError = True\<rparr>
       else eff_bind
         (if dedupe (missingPayerNames (payers a) @ missingProfiteerNames (profiteers a)) \<noteq> []
          then resolveUserIdsByName (splidApi client CODE) (group_id g)
                 (dedupe (missingPayerNames (payers a) @ missingProfiteerNames (profiteers a)))
          else eff_return []) (\<lambda>nameToId.
         if list_ex (\<lambda>p. \<not> truthy (np_userId p)) (normalizedPayers nameToId (payers a))
            \<or> list_ex (\<lambda>p. \<not> truthy (nf_userId p)) (normalizedProfiteers nameToId (profiteers a))
         then eff_return \<lparr>content = [[Lit ''Failed to resolve all user names to IDs'']],
                          isError = True\<rparr>
         else eff_bind (splidApi_createExpense client
                \<lparr>input_groupId = group_id g, input_title = title a, input_amount = amount a,
                 input_currencyCode = coalesce (of_optional (currencyCode a))
                                        (coalesce (group_currencyCode g) (JString ''EUR'')),
                 input_payers = normalizedPayers nameToId (payers a),
                 input_profiteers = normalizedProfiteers nameToId (profiteers a)\<rparr>) (\<lambda>result.
              eff_return \<lparr>content = [[JsonStringify result]], isError = False\<rparr>)))"
    unfolding createExpense_handler_def create_after_validation_def select_group_policy
      selector_fields Let_def error_result_def text_result_def splidApi_simps ..
  have le: "listEntries_handler (splidApi client CODE) b =
     eff_bind (group_policy client CODE (groupId b) (groupCode b) (groupName b)) (\<lambda>g.
       eff_bind (splidApi_listEntries client
          \<lparr>entries_groupId = group_id g,
           entries_limit = Some (case limit b of None \<Rightarrow> Finite 20 | Some l \<Rightarrow> l)\<rparr>) (\<lambda>entries.
       eff_return \<lparr>content = [[JsonStringify entries]], isError = False\<rparr>))"
    unfolding listEntries_handler_def select_group_policy selector_fields text_result_def
      splidApi_simps ..
  have gs: "getGroupSummary_handler (splidApi client CODE) c =
     eff_bind (group_policy client CODE (groupId c) (groupCode c) (groupName c)) (\<lambda>g.
       eff_bind (splidApi_getGroupSummary client (group_id g)) (\<lambda>summary.
       eff_return \<lparr>content = [[JsonStringify summary]], isError = False\<rparr>))"
    unfolding getGroupSummary_handler_def select_group_policy selector_fields text_result_def
      splidApi_simps ..
  have p1: "group_policy client CODE i j n = group_by_id client gid" if "i = Some gid" "gid \<noteq> []"
    using that by (simp add: group_policy_def present_def as_string_def)
  have p2: "group_policy client CODE i j n = group_by_code client code"
    if "\<not> present i" "j = Some code" "code \<noteq> []"
    using that by (simp add: group_policy_def present_def as_string_def)
  have p3: "group_policy client CODE i j n calls =
      (Inl (Error ''Group selection by name is not supported yet''), calls)"
    if "\<not> present i" "\<not> present j" "present n" for calls
    using that by (simp add: group_policy_def eff_throw_def)
  have p4: "group_policy client CODE i j n = group_by_code client CODE"
    if "\<not> present i" "\<not> present j" "\<not> present n"
    using that by (simp add: group_policy_def)
  show ?thesis
    using ce le gs select_group_policy[of client CODE sel] p1 p2 p3 p4
      group_by_id_unfold[of client gid] group_by_code_unfold[of client code]
    by blast
qed


theorem group_resolution_policy_witness:
  "listEntries_handler (splidApi example_client ''CODE'')
      \<lparr>groupId = Some ''g7'', groupCode = Some ''XYZ'', groupName = Some ''Flat'', limit = None\<rparr> [] =
     (Inr \<lparr>content = [[JsonStringify (JArray [])]], isError = False\<rparr>,
      [GroupInfo_getOneByGroup ''g7'', Entry_getByGroup ''g7'' (Finite 0) (Finite 20)])
   \<and> getGroupSummary_handler (splidApi summary_client ''CODE'') (sel_of None (Some ''XYZ'') (Some ''Flat'')) [] =
     (Inr \<lparr>content = [[JsonStringify (JObject [(''balance'', JNull)])]], isError = False\<rparr>,
      [Group_getByInviteCode ''XYZ'', GroupInfo_getOneByGroup ''g1'', Person_getByGroup ''g1'',
       Entry_getByGroup ''g1'' (Finite 0) (Finite 100), GroupInfo_getOneByGroup ''g1''])
   \<and> createExpense_handler (splidApi example_client ''CODE'') (dinner\<lparr>groupName := Some ''Flat''\<rparr>) [] =
     (Inl (Error ''Group selection by name is not supported yet''), [])
   \<and> getGroupSummary_handler (splidApi summary_client ''CODE'') (sel_of None None None) [] =
     (Inr \<lparr>content = [[JsonStringify (JObject [(''balance'', JNull)])]], isError = False\<rparr>,
      [Group_getByInviteCode ''CODE'', GroupInfo_getOneByGroup ''g1'', Person_getByGroup ''g1'',
       Entry_getByGroup ''g1'' (Finite 0) (Finite 100), GroupInfo_getOneByGroup ''g1''])
   \<and> createExpense_handler (splidApi example_client ''CODE'') (dinner\<lparr>groupId := Some ''g7''\<rparr>) [] =
     (Inr \<lparr>content = [[JsonStringify (JString ''created'')]], isError = False\<rparr>,
      [GroupInfo_getOneByGroup ''g7'', Person_getByGroup ''g7'',
       Entry_expense_create
         \<lparr>opt_groupId = ''g7'', opt_title = ''Dinner'',
          opt_payers = [\<lparr>cp_id = JString ''id-alice'', cp_amount = Finite (25 / 2)\<rparr>],
          opt_currencyCode = JString ''CHF''\<rparr>
         \<lparr>item_amount = Finite (25 / 2),
          item_profiteers = [\<lparr>cf_id = JString ''id-bob'', cf_share = d06\<rparr>,
                             \<lparr>cf_id = JString ''id-alice'', cf_share = d04\<rparr>]\<rparr>])"
proof -
  let ?b = "\<lparr>groupId = Some ''g7'', groupCode = Some ''XYZ'', groupName = Some ''Flat'', limit = None\<rparr>"
  note le = group_resolution_policy[where client = example_client and CODE = "''CODE''" and b = ?b,
      THEN conjunct2, THEN conjunct1]
  note p1 = group_resolution_policy[where client = example_client and CODE = "''CODE''"
      and i = "Some ''g7''" and j = "Some ''XYZ''" and n = "Some ''Flat''" and gid = "''g7''",
      THEN conjunct2, THEN conjunct2, THEN conjunct2, THEN conjunct2, THEN conjunct1]
  have 1: "listEntries_handler (splidApi example_client ''CODE'') ?b [] =
     (Inr \<lparr>content = [[JsonStringify (JArray [])]], isError = False\<rparr>,
      [GroupInfo_getOneByGroup ''g7'', Entry_getByGroup ''g7'' (Finite 0) (Finite 20)])"
    using p1 by (simp add: le example_by_id example_entries eff_bind_def eff_return_def)
  note gs = group_resolution_policy[where client = summary_client and CODE = "''CODE''",
      THEN conjunct2, THEN conjunct2, THEN conjunct1]
  note p2 = group_resolution_policy[where client = summary_client and CODE = "''CODE''"
      and i = None and j = "Some ''XYZ''" and n = "Some ''Flat''" and code = "''XYZ''",
      THEN conjunct2, THEN conjunct2, THEN conjunct2, THEN conjunct2, THEN conjunct2, THEN conjunct1]
  have 2: "getGroupSummary_handler (splidApi summary_client ''CODE'') (sel_of None (Some ''XYZ'') (Some ''Flat'')) [] =
     (Inr \<lparr>content = [[JsonStringify (JObject [(''balance'', JNull)])]], isError = False\<rparr>,
      [Group_getByInviteCode ''XYZ'', GroupInfo_getOneByGroup ''g1'', Person_getByGroup ''g1'',
       Entry_getByGroup ''g1'' (Finite 0) (Finite 100), GroupInfo_getOneByGroup ''g1''])"
    using p2 by (simp add: gs sel_of_def present_def summary_by_code example_summary eff_bind_def
        eff_return_def)
  note ce = group_resolution_policy[where client = example_client and CODE = "''CODE''",
      THEN conjunct1]
  note p3 = group_resolution_policy[where client = example_client and CODE = "''CODE''"
      and i = None and j = None and n = "Some ''Flat''",
      THEN conjunct2, THEN conjunct2, THEN conjunct2, THEN conjunct2, THEN conjunct2, THEN conjunct2,
      THEN conjunct1]
  have 3: "createExpense_handler (splidApi example_client ''CODE'') (dinner\<lparr>groupName := Some ''Flat''\<rparr>) [] =
     (Inl (Error ''Group selection by name is not supported yet''), [])"
    using p3 by (simp add: ce dinner_def present_def eff_bind_def)
  note p4 = group_resolution_policy[where client = summary_client and CODE = "''CODE''"
      and i = None and j = None and n = None,
      THEN conjunct2, THEN conjunct2, THEN conjunct2, THEN conjunct2, THEN conjunct2, THEN conjunct2,
      THEN conjunct2, THEN conjunct1]
  have 4: "getGroupSummary_handler (splidApi summary_client ''CODE'') (sel_of None None None) [] =
     (Inr \<lparr>content = [[JsonStringify (JObject [(''balance'', JNull)])]], isError = False\<rparr>,
      [Group_getByInviteCode ''CODE'', GroupInfo_getOneByGroup ''g1'', Person_getByGroup ''g1'',
       Entry_getByGroup ''g1'' (Finite 0) (Finite 100), GroupInfo_getOneByGroup ''g1''])"
    using p4 by (simp add: gs sel_of_def present_def summary_by_code example_summary eff_bind_def
        eff_return_def)
  note p5 = group_resolution_policy[where client = example_client and CODE = "''CODE''"
      and i = "Some ''g7''" and j = None and n = None and gid = "''g7''",
      THEN conjunct2, THEN conjunct2, THEN conjunct2, THEN conjunct2, THEN conjunct1]
  have f: "groupId (dinner\<lparr>groupId := Some ''g7''\<rparr>) = Some ''g7''"
    "groupCode (dinner\<lparr>groupId := Some ''g7''\<rparr>) = None"
    "groupName (dinner\<lparr>groupId := Some ''g7''\<rparr>) = None"
    "payers (dinner\<lparr>groupId := Some ''g7''\<rparr>) = payers dinner"
    "profiteers (dinner\<lparr>groupId := Some ''g7''\<rparr>) = profiteers dinner"
    by (simp_all add: dinner_def)
  have nps: "normalizedPayers [(''Alice'', JString ''id-alice''), (''Bob'', JString ''id-bob'')] (payers dinner) =
      [\<lparr>np_userId = JString ''id-alice'', np_amount = Finite (25 / 2)\<rparr>]"
    by (simp add: dinner_def normalizedPayers_def coalesce_def nullish_def of_optional_def
        obj_get_def as_string_def)
  have nfs: "normalizedProfiteers [(''Alice'', JString ''id-alice''), (''Bob'', JString ''id-bob'')] (profiteers dinner) =
      [\<lparr>nf_userId = JString ''id-bob'', nf_share = d06\<rparr>, \<lparr>nf_userId = JString ''id-alice'', nf_share = d04\<rparr>]"
    by (simp add: dinner_def normalizedProfiteers_def coalesce_def nullish_def of_optional_def
        obj_get_def as_string_def)
  have 5: "createExpense_handler (splidApi example_client ''CODE'') (dinner\<lparr>groupId := Some ''g7''\<rparr>) [] =
     (Inr \<lparr>content = [[JsonStringify (JString ''created'')]], isError = False\<rparr>,
      [GroupInfo_getOneByGroup ''g7'', Person_getByGroup ''g7'',
       Entry_expense_create
         \<lparr>opt_groupId = ''g7'', opt_title = ''Dinner'',
          opt_payers = [\<lparr>cp_id = JString ''id-alice'', cp_amount = Finite (25 / 2)\<rparr>],
          opt_currencyCode = JString ''CHF''\<rparr>
         \<lparr>item_amount = Finite (25 / 2),
          item_profiteers = [\<lparr>cf_id = JString ''id-bob'', cf_share = d06\<rparr>,
                             \<lparr>cf_id = JString ''id-alice'', cf_share = d04\<rparr>]\<rparr>])"
    using p5
    by (simp add: ce f example_by_id eff_bind_def eff_return_def sum_dinner no_mismatch_one
        dinner_names example_resolve nps nfs example_create)
       (simp add: dinner_def coalesce_def nullish_def of_optional_def)
  show ?thesis using 1 2 3 4 5 by blast
qed

section \<open>C6: the limit of listEntries\<close>

lemma limit_ok_iff: "limit_ok n \<longleftrightarrow> (\<exists>k::int. n = Finite (of_int k) \<and> 1 \<le> k \<and> k \<le> 100)"
proof
  assume "limit_ok n"
  then obtain x where x: "n = Finite x" "of_int \<lfloor>x\<rfloor> = x" "1 \<le> x" "x \<le> 100"
    by (cases n) (auto simp: limit_ok_def)
  then have "1 \<le> \<lfloor>x\<rfloor>" "\<lfloor>x\<rfloor> \<le> 100" by linarith+
  with x show "\<exists>k::int. n = Finite (of_int k) \<and> 1 \<le> k \<and> k \<le> 100" by metis
next
  assume "\<exists>k::int. n = Finite (of_int k) \<and> 1 \<le> k \<and> k \<le> 100"
  then show "limit_ok n" by (auto simp: limit_ok_def)
qed

lemma parse_accepts_limit:
  assumes "ListEntriesInput_parse raw = Some a"
  shows "limit a = None \<and> field raw ''limit'' = JUndefined
         \<or> (\<exists>n. limit a = Some n \<and> field raw ''limit'' = JNumber n \<and> limit_ok n)"
  using assms
  by (auto simp: ListEntriesInput_parse_def parse_limit_def
      split: any.splits option.splits if_splits)

lemma parse_rejects_limit:
  assumes "field raw ''limit'' = JNumber n" "\<not> limit_ok n"
  shows "ListEntriesInput_parse raw = None"
  using assms
  by (auto simp: ListEntriesInput_parse_def parse_limit_def split: any.splits option.splits)

lemma example_select_default:
  "select_group (splidApi example_client ''CODE'') (sel_of None None None) calls =
     (Inr \<lparr>group_id = ''g1'', group_currencyCode = JString ''CHF''\<rparr>,
      calls @ [Group_getByInviteCode ''CODE'', GroupInfo_getOneByGroup ''g1''])"
  by (simp add: select_group_def sel_of_def truthy_opt_def of_optional_def splidApi_simps
      splidApi_getDefaultGroup_def example_by_code)

text \<open>
  C6. The schema of listEntries accepts a \<open>limit\<close> only if it is absent or an integer from 1
  to 100. Any other number, 150 among them, is refused before the handler runs: the call ends
  as an invalid-parameters error and the collaborator's state is untouched. An accepted call,
  once its group is resolved, asks the client for the entries of that group from offset 0, with
  the given limit, or 20 when the limit is absent, and returns what the client answers.
\<close>

theorem listEntries_limit:
  "(ListEntriesInput_parse raw = Some a \<longrightarrow>
      limit a = None \<and> field raw ''limit'' = JUndefined
      \<or> (\<exists>k::int. limit a = Some (Finite (of_int k)) \<and> field raw ''limit'' = JNumber (Finite (of_int k))
                  \<and> 1 \<le> k \<and> k \<le> 100))
   \<and> (field raw ''limit'' = JNumber n \<and> \<not> (\<exists>k::int. n = Finite (of_int k) \<and> 1 \<le> k \<and> k \<le> 100) \<longrightarrow>
        call_tool ListEntriesInput_parse (listEntries_handler splid) raw s = (InvalidParams, s))
   \<and> call_tool ListEntriesInput_parse (listEntries_handler splid)
        (JObject [(''limit'', JNumber (Finite 150))]) s = (InvalidParams, s)
   \<and> (select_group (splidApi client CODE) (selector b) calls = (Inr g, calls1) \<longrightarrow>
        listEntries_handler (splidApi client CODE) b calls =
          (let n = (case limit b of None \<Rightarrow> Finite 20 | Some l \<Rightarrow> l);
               calls2 = calls1 @ [Entry_getByGroup (group_id g) (Finite 0) n]
           in case entry_getByGroup client calls1 (group_id g) (Finite 0) n of
                Inl e \<Rightarrow> (Inl e, calls2)
              | Inr entries \<Rightarrow> (Inr \<lparr>content = [[JsonStringify entries]], isError = False\<rparr>, calls2)))"
proof -
  have 1: "limit a = None \<and> field raw ''limit'' = JUndefined
      \<or> (\<exists>k::int. limit a = Some (Finite (of_int k)) \<and> field raw ''limit'' = JNumber (Finite (of_int k))
                  \<and> 1 \<le> k \<and> k \<le> 100)"
    if "ListEntriesInput_parse raw = Some a"
    using parse_accepts_limit[OF that] by (auto simp: limit_ok_iff)
  have 2: "call_tool ListEntriesInput_parse (listEntries_handler splid) raw s = (InvalidParams, s)"
    if "field raw ''limit'' = JNumber n" "\<not> (\<exists>k::int. n = Finite (of_int k) \<and> 1 \<le> k \<and> k \<le> 100)"
    using parse_rejects_limit[OF that(1)] that(2) by (simp add: call_tool_def limit_ok_iff)
  have "\<not> limit_ok (Finite 150)" by (simp add: limit_ok_def)
  then have 3: "call_tool ListEntriesInput_parse (listEntries_handler splid)
        (JObject [(''limit'', JNumber (Finite 150))]) s = (InvalidParams, s)"
    by (simp add: call_tool_def ListEntriesInput_parse_def parse_limit_def parse_optional_string_def)
  have 4: "listEntries_handler (splidApi client CODE) b calls =
          (let n = (case limit b of None \<Rightarrow> Finite 20 | Some l \<Rightarrow> l);
               calls2 = calls1 @ [Entry_getByGroup (group_id g) (Finite 0) n]
           in case entry_getByGroup client calls1 (group_id g) (Finite 0) n of
                Inl e \<Rightarrow> (Inl e, calls2)
              | Inr entries \<Rightarrow> (Inr \<lparr>content = [[JsonStringify entries]], isError = False\<rparr>, calls2))"
    if "select_group (splidApi client CODE) (selector b) calls = (Inr g, calls1)"
    using that
    by (simp add: listEntries_handler_def eff_bind_def splidApi_simps splidApi_listEntries_def
        await_call_def eff_return_def text_result_def Let_def split: sum.splits)
  show ?thesis using 1 2 3 4 by blast
qed


theorem listEntries_limit_witness:
  "ListEntriesInput_parse (JObject [(''limit'', JNumber (Finite 50))]) = Some (list_default\<lparr>limit := Some (Finite 50)\<rparr>)
   \<and> call_tool ListEntriesInput_parse (listEntries_handler (splidApi example_client ''CODE''))
        (JObject [(''limit'', JNumber (Finite (1 / 2)))]) [] = (InvalidParams, [])
   \<and> listEntries_handler (splidApi example_client ''CODE'') list_default [] =
       (Inr \<lparr>content = [[JsonStringify (JArray [])]], isError = False\<rparr>,
        [Group_getByInviteCode ''CODE'', GroupInfo_getOneByGroup ''g1'',
         Entry_getByGroup ''g1'' (Finite 0) (Finite 20)])"
proof -
  have p: "ListEntriesInput_parse (JObject [(''limit'', JNumber (Finite 50))])
      = Some (list_default\<lparr>limit := Some (Finite 50)\<rparr>)"
    by (simp add: ListEntriesInput_parse_def parse_limit_def parse_optional_string_def limit_ok_def
        list_default_def)
  have half: "\<not> (\<exists>k::int. Finite (1 / 2) = Finite (of_int k) \<and> 1 \<le> k \<and> k \<le> 100)"
  proof
    assume "\<exists>k::int. Finite (1 / 2) = Finite (of_int k) \<and> 1 \<le> k \<and> k \<le> 100"
    then obtain k :: int where "(1 / 2 :: rat) = of_int k" "1 \<le> k" by auto
    then have "(1::rat) \<le> 1 / 2" by simp
    then show False by simp
  qed
  have f: "field (JObject [(''limit'', JNumber (Finite (1 / 2)))]) ''limit'' = JNumber (Finite (1 / 2))"
    by simp
  have r: "call_tool ListEntriesInput_parse (listEntries_handler (splidApi example_client ''CODE''))
        (JObject [(''limit'', JNumber (Finite (1 / 2)))]) [] = (InvalidParams, [])"
    using listEntries_limit[where raw = "JObject [(''limit'', JNumber (Finite (1 / 2)))]"
          and n = "Finite (1 / 2)" and splid = "splidApi example_client ''CODE''"
          and s = "[] :: client_call list",
        THEN conjunct2, THEN conjunct1] f half by simp
  have s: "select_group (splidApi example_client ''CODE'') (selector list_default) [] =
     (Inr \<lparr>group_id = ''g1'', group_currencyCode = JString ''CHF''\<rparr>,
      [] @ [Group_getByInviteCode ''CODE'', GroupInfo_getOneByGroup ''g1''])"
    using example_select_default[of "[]"] by (simp add: selector_def list_default_def sel_of_def)
  have h: "listEntries_handler (splidApi example_client ''CODE'') list_default [] =
       (Inr \<lparr>content = [[JsonStringify (JArray [])]], isError = False\<rparr>,
        [Group_getByInviteCode ''CODE'', GroupInfo_getOneByGroup ''g1'',
         Entry_getByGroup ''g1'' (Finite 0) (Finite 20)])"
    using listEntries_limit[THEN conjunct2, THEN conjunct2, THEN conjunct2, rule_format, OF s]
    by (simp add: list_default_def example_client_def)
  show ?thesis using p r h by blast
qed

section \<open>C10: the empty string as a selector\<close>

lemma truthy_opt_blank [simp]: "truthy_opt (blank_to_absent s) = truthy_opt s"
  by (cases s) (simp_all add: blank_to_absent_def truthy_opt_def of_optional_def)







section \<open>Sessions\<close>

lemma transports_get_Missing:
  assumes "map_of ts k = None" "k \<notin> set object_prototype_keys"
  shows "transports_get ts k = Missing"
  using assms by (simp add: transports_get_def)

lemma transports_get_Missing_D:
  assumes "transports_get ts k = Missing"
  shows "map_of ts k = None"
  using assms by (auto simp: transports_get_def split: option.splits if_splits)

lemma inherited_key_length:
  assumes "k \<in> set object_prototype_keys"
  shows "length k \<le> 20"
  using assms by (auto simp: object_prototype_keys_def)

lemma is_uuid_not_inherited:
  assumes "is_uuid s"
  shows "s \<notin> set object_prototype_keys" "s \<noteq> []"
proof -
  have len: "length s = 36" using assms by (simp add: is_uuid_def)
  show "s \<notin> set object_prototype_keys" using inherited_key_length[of s] len by auto
  show "s \<noteq> []" using len by auto
qed

lemma truthy_opt_Some: "truthy_opt (Some s) \<longleftrightarrow> s \<noteq> []"
  by (simp add: truthy_opt_def of_optional_def)

lemma post_mcp_rejects:
  "\<not> truthy_opt sessionId \<Longrightarrow> \<not> isInit \<Longrightarrow> post_mcp sessionId isInit outcome st = (BadRequest400, st)"
  "sid \<noteq> [] \<Longrightarrow> map_of (transports st) sid = None \<Longrightarrow> sid \<notin> set object_prototype_keys
     \<Longrightarrow> post_mcp (Some sid) isInit outcome st = (BadRequest400, st)"
  by (simp_all add: post_mcp_def truthy_opt_Some as_string_def transports_get_Missing)

lemma get_mcp_rejects:
  "sid \<noteq> [] \<Longrightarrow> map_of (transports st) sid = None \<Longrightarrow> sid \<notin> set object_prototype_keys
     \<Longrightarrow> get_mcp (Some sid) st = (BadRequest400, st)"
  by (simp add: get_mcp_def truthy_opt_Some as_string_def transports_get_Missing)

lemma onclose_removes:
  assumes "map_of (sessionIds st) t = Some sid" "sid \<noteq> []"
  shows "map_of (transports (onclose t st)) sid = None"
  using assms by (auto simp: onclose_def delete_conv' dest: transports_get_Missing_D)

lemma onclose_sessionIds [simp]: "sessionIds (onclose t st) = sessionIds st"
  by (simp add: onclose_def split: option.splits)

lemma onclose_idem: "onclose t (onclose t st) = onclose t st"
proof (cases "map_of (sessionIds st) t")
  case None
  then show ?thesis by (simp add: onclose_def)
next
  case (Some sid)
  show ?thesis
  proof (cases "sid \<noteq> [] \<and> transports_get (transports st) sid \<noteq> Missing")
    case True
    then have 1: "onclose t st = st\<lparr>transports := AList.delete sid (transports st)\<rparr>"
      using Some by (simp add: onclose_def)
    show ?thesis
      unfolding 1 using Some by (simp add: onclose_def delete_idem)
  next
    case False
    then have "onclose t st = st" using Some by (auto simp: onclose_def)
    then show ?thesis by simp
  qed
qed

lemma onclose_keeps_absent:
  assumes "map_of (transports st) sid = None"
  shows "map_of (transports (onclose t' st)) sid = None"
  using assms by (auto simp: onclose_def delete_conv' split: option.splits)

lemma step_keeps_absent:
  assumes "map_of (transports st) sid = None" "sid \<notin> set (new_ids [ev])"
  shows "map_of (transports (step ev st)) sid = None"
proof (cases ev)
  case (Post sessionId isInit outcome)
  show ?thesis
  proof (cases outcome)
    case (Initialized sid')
    then have "sid' \<noteq> sid" using assms(2) Post by auto
    then show ?thesis
      using assms(1) Post Initialized
      by (auto simp: post_mcp_def initialize_session_def onsessioninitialized_def update_conv' Let_def split: lookup.splits)
  next
    case NotInitialized
    then show ?thesis
      using assms(1) Post by (auto simp: post_mcp_def Let_def split: lookup.splits)
  qed
next
  case (Get sessionId)
  then show ?thesis using assms(1) by (auto simp: get_mcp_def split: lookup.splits)
next
  case (Delete sessionId)
  then show ?thesis using assms(1) by (auto simp: delete_mcp_def get_mcp_def split: lookup.splits)
next
  case (Close t')
  then show ?thesis using assms(1) by (simp add: onclose_keeps_absent)
qed

lemma new_ids_Cons: "sid \<notin> set (new_ids (ev # evs)) \<longleftrightarrow> sid \<notin> set (new_ids [ev]) \<and> sid \<notin> set (new_ids evs)"
proof (cases ev)
  case (Post sessionId isInit outcome)
  then show ?thesis by (cases outcome) auto
qed auto

lemma run_keeps_absent:
  assumes "map_of (transports st) sid = None" "sid \<notin> set (new_ids evs)"
  shows "map_of (transports (run evs st)) sid = None"
  using assms
proof (induction evs arbitrary: st)
  case Nil
  then show ?case by (simp add: run_def)
next
  case (Cons ev evs)
  from Cons.prems(2) have a: "sid \<notin> set (new_ids [ev])" and b: "sid \<notin> set (new_ids evs)"
    using new_ids_Cons[of sid ev evs] by blast+
  have "map_of (transports (step ev st)) sid = None"
    using Cons.prems(1) a by (rule step_keeps_absent)
  from Cons.IH[OF this b] show ?case by (simp add: run_def)
qed

lemma example_uuids: "is_uuid example_uuid" "is_uuid other_uuid"
  by code_simp+

lemma established_value:
  "established = \<lparr>transports = [(example_uuid, 0)], sessionIds = [(0, example_uuid)], next_transport = 1\<rparr>"
proof -
  have "example_uuid \<noteq> ''__proto__''" by (simp add: example_uuid_def)
  then show ?thesis
    by (simp add: established_def post_mcp_def truthy_opt_def of_optional_def initial_state_def
        initialize_session_def onsessioninitialized_def Let_def)
qed

section \<open>C7: requests without a valid session\<close>

text \<open>
  C7. A request whose session identifier is not in the session map should be rejected with a
  client error, like a request without identifier that is not an initialisation (lemma
  \<open>post_mcp_rejects\<close> proves both for identifiers that are not keys of
  \<open>Object.prototype\<close>). The code fails this for the identifier \<open>constructor\<close>, which is in
  no session map: \<open>transports["constructor"]\<close> is the inherited built-in, the handler takes it
  for a session, the call of its \<open>handleRequest\<close> throws, and the request is answered with
  the status 500, a server error. The session map stays as it was.
\<close>

theorem post_mcp_inherited_session_id:
  "map_of (transports initial_state) ''constructor'' = None
   \<and> post_mcp (Some ''constructor'') isInit outcome initial_state = (InternalError500, initial_state)"
  by (simp add: initial_state_def post_mcp_def truthy_opt_Some as_string_def transports_get_def
      object_prototype_keys_def)


section \<open>C8: a closed session\<close>

text \<open>
  C8. Let \<open>sid\<close> be the identifier of the session of transport \<open>t\<close>, as \<open>randomUUID\<close>
  generated it. When the channel of \<open>t\<close> closes, \<open>sid\<close> is no longer in the session map;
  closing again changes nothing; and after any further requests and closures that do not
  start a session with the same identifier again, a POST, GET or DELETE request bearing
  \<open>sid\<close> is answered with the status 400 and leaves the server as it is.
\<close>

theorem closed_session_is_rejected:
  assumes "map_of (sessionIds st) t = Some sid" "is_uuid sid" "sid \<notin> set (new_ids evs)"
  shows "map_of (transports (onclose t st)) sid = None
     \<and> onclose t (onclose t st) = onclose t st
     \<and> post_mcp (Some sid) isInit outcome (run evs (onclose t st)) = (BadRequest400, run evs (onclose t st))
     \<and> get_mcp (Some sid) (run evs (onclose t st)) = (BadRequest400, run evs (onclose t st))
     \<and> delete_mcp (Some sid) (run evs (onclose t st)) = (BadRequest400, run evs (onclose t st))"
proof -
  note u = is_uuid_not_inherited[OF assms(2)]
  have gone: "map_of (transports (onclose t st)) sid = None"
    using assms(1) u(2) by (rule onclose_removes)
  then have later: "map_of (transports (run evs (onclose t st))) sid = None"
    using assms(3) by (rule run_keeps_absent)
  show ?thesis
    using gone later u
    by (simp add: onclose_idem post_mcp_rejects get_mcp_rejects delete_mcp_def)
qed

theorem closed_session_is_rejected_witness:
  "post_mcp (Some example_uuid) False NotInitialized established = (Handled 0, established)
   \<and> map_of (transports (onclose 0 established)) example_uuid = None
   \<and> post_mcp (Some example_uuid) False NotInitialized
        (run [Post None True (Initialized other_uuid)] (onclose 0 established)) =
       (BadRequest400,
        \<lparr>transports = [(other_uuid, 1)], sessionIds = [(0, example_uuid), (1, other_uuid)],
         next_transport = 2\<rparr>)"
proof -
  have ne: "example_uuid \<noteq> other_uuid" "other_uuid \<noteq> ''__proto__''" "example_uuid \<noteq> []"
    by (simp_all add: example_uuid_def other_uuid_def)
  have s: "map_of (sessionIds established) 0 = Some example_uuid"
    by (simp add: established_value)
  have f: "example_uuid \<notin> set (new_ids [Post None True (Initialized other_uuid)])"
    using ne by simp
  have before: "post_mcp (Some example_uuid) False NotInitialized established = (Handled 0, established)"
    using ne by (simp add: established_value post_mcp_def truthy_opt_def of_optional_def as_string_def
        transports_get_def)
  have closed: "onclose 0 established = \<lparr>transports = [], sessionIds = [(0, example_uuid)], next_transport = 1\<rparr>"
    using ne by (simp add: established_value onclose_def transports_get_def)
  have after: "run [Post None True (Initialized other_uuid)] (onclose 0 established) =
      \<lparr>transports = [(other_uuid, 1)], sessionIds = [(0, example_uuid), (1, other_uuid)], next_transport = 2\<rparr>"
    using ne by (simp add: closed run_def post_mcp_def truthy_opt_def of_optional_def
        initialize_session_def onsessioninitialized_def Let_def)
  show ?thesis
    using closed_session_is_rejected[OF s example_uuids(1) f, of False NotInitialized] before
    by (simp add: after)
qed

section \<open>C9: health\<close>

text \<open>
  C9. The health tool takes no input and cannot fail: it is a constant. Its payload should be
  \<open>{ok: true}\<close>, as the documentation of the tool says, but the tool returns the text \<open>ok\<close>;
  the payload \<open>{ok: true}\<close> is what the route \<open>GET /health\<close> of the server answers.
\<close>

theorem health_tool_text:
  "health_handler = \<lparr>content = [[Lit ''ok'']], isError = False\<rparr>
   \<and> content health_handler \<noteq> [[JsonStringify (JObject [(''ok'', JBool True)])]]
   \<and> health_route = JObject [(''ok'', JBool True)]"
  by (simp add: health_handler_def text_result_def health_route_def)


end
